theory Spec2Isabelle
  imports Complex_Main "HOL-Library.Multiset"
begin

section \<open>Values, tensors and errors\<close>

text \<open>
  The data provider of \<^verbatim>\<open>DataProvider_input_pipeline.py\<close> works on float tensors of
  rank 3 (height, width, channels). A pixel value is a finite number or NaN; a tensor is
  a list of rows, a row a list of pixels, a pixel a list of channel values. Every
  exception the modelled code can raise is a value of \<open>error\<close>, and a function that can
  raise returns \<open>error + 'a\<close> with \<open>Inl\<close> for the exception.
\<close>

datatype error =
    ValueError string
  | AttributeError string
  | IndexError
  | TypeError string
  | ZeroDivisionError
  | UnboundLocalError string
  | InvalidArgumentError string

datatype fval = NaN | Fin rat

type_synonym image = "fval list list list"

type_synonym seed = "nat \<times> nat"

text \<open>A filter predicate of the chain: called on a crop, it returns a boolean or raises.\<close>

type_synonym crop_pred = "image \<Rightarrow> error + bool"

text \<open>
  A transform of the chain is called as \<^verbatim>\<open>transform(image, seed)\<close>. The third argument
  of the model is the state of TensorFlow's process-wide random generator at the call,
  which a Python function can read without being handed it: here the value that
  \<^verbatim>\<open>tf.random.uniform\<close> would draw.
\<close>

type_synonym transform = "image \<Rightarrow> seed \<Rightarrow> nat \<Rightarrow> error + image"

definition tf_is_nan :: "fval \<Rightarrow> bool" where
  "tf_is_nan v = (case v of NaN \<Rightarrow> True | Fin q \<Rightarrow> False)"

definition image_height :: "image \<Rightarrow> int" where
  "image_height img = int (length img)"

definition image_width :: "image \<Rightarrow> int" where
  "image_width img = (case img of [] \<Rightarrow> 0 | row # rest \<Rightarrow> int (length row))"

definition image_depth :: "image \<Rightarrow> int" where
  "image_depth img = (case img of [] \<Rightarrow> 0 | [] # rest \<Rightarrow> 0 | (px # row) # rest \<Rightarrow> int (length px))"

text \<open>A nested list is a tensor of shape (h, w, c) when it is rectangular.\<close>

definition is_tensor :: "nat \<Rightarrow> nat \<Rightarrow> nat \<Rightarrow> image \<Rightarrow> bool" where
  "is_tensor h w c img =
     (length img = h \<and> list_all (\<lambda>row. length row = w \<and> list_all (\<lambda>px. length px = c) row) img)"

text \<open>\<^verbatim>\<open>tf.cast(x, tf.int32)\<close> of a finite float truncates towards zero.\<close>

definition tf_cast_int32 :: "rat \<Rightarrow> int" where
  "tf_cast_int32 q = (if 0 \<le> q then \<lfloor>q\<rfloor> else \<lceil>q\<rceil>)"

text \<open>The product of two int32 tensors wraps around.\<close>

definition int32 :: "int \<Rightarrow> int" where
  "int32 x = (x + 2147483648) mod 4294967296 - 2147483648"

text \<open>
  The operations of TensorFlow that the pipeline calls and that are not modelled here
  bit by bit are parameters of the model: the rounding of an exact value to float32,
  the cast to the configured output dtype, the photometric image operations, the
  decisions of the seeded (stateless) random flips, the seeds a Philox generator
  created from a master seed hands out at its n-th call, and the float32 logarithm.
  A float32 value is the rational number it stands for.
\<close>

record tf_ops =
  f32 :: "rat \<Rightarrow> rat"
  cast_dtype :: "fval \<Rightarrow> fval"
  per_image_standardization :: "image \<Rightarrow> image"
  stateless_random_brightness :: "rat \<Rightarrow> seed \<Rightarrow> image \<Rightarrow> image"
  stateless_random_saturation :: "rat \<Rightarrow> rat \<Rightarrow> seed \<Rightarrow> image \<Rightarrow> image"
  stateless_random_contrast :: "rat \<Rightarrow> rat \<Rightarrow> seed \<Rightarrow> image \<Rightarrow> image"
  stateless_flip_left_right_decision :: "seed \<Rightarrow> bool"
  stateless_flip_up_down_decision :: "seed \<Rightarrow> bool"
  make_seeds :: "int \<Rightarrow> nat \<Rightarrow> seed"
  tf_log :: "rat \<Rightarrow> rat"

section \<open>The pipeline object\<close>

datatype nan_mode = NanNone | NanZeros | NanAvoid

text \<open>
  \<^verbatim>\<open>filelist_reference_data\<close> is a list of reference files, \<^verbatim>\<open>None\<close> (the reference
  is the last channel of the raw file) or anything else, such as -1 (no reference).
\<close>

datatype reference_source = RefLastChannel | RefList "string list" | RefAbsent

text \<open>\<^verbatim>\<open>use_alternative_imread\<close>: \<^verbatim>\<open>None\<close>, the default \<^verbatim>\<open>False\<close>, or a backend name.\<close>

datatype imread_backend = ImreadNone | ImreadFalse | OpenCV | GDAL | Rasterio

text \<open>
  \<^verbatim>\<open>additionnal_filters\<close> as the caller passes it: \<^verbatim>\<open>None\<close>, a list of predicates, or
  a value that is not a list.
\<close>

datatype filters_argument = FiltersNone | FiltersList "crop_pred list" | FiltersNotAList

text \<open>The constructor's parameters, stored as attributes of the same names.\<close>

record params =
  filelist_raw_data :: "string list"
  filelist_reference_data :: reference_source
  nbEpoch :: int
  shuffle_samples :: bool
  patch_ratio_vs_input :: rat
  max_patches_per_image :: int
  image_area_coverage_factor :: rat
  num_reader_threads :: nat
  apply_random_flip_left_right :: bool
  apply_random_flip_up_down :: bool
  apply_random_rot90 :: bool
  apply_random_brightness :: "rat option"
  apply_random_saturation :: "rat option"
  apply_random_contrast :: "rat option"
  apply_whitening :: bool
  batch_size :: nat
  use_alternative_imread :: imread_backend
  balance_classes_distribution :: bool
  classes_entropy_threshold :: rat
  field_of_view :: int
  manage_nan_values :: nan_mode
  additionnal_filters_arg :: filters_argument
  crops_postprocess :: "transform option"
  seed :: int

text \<open>
  The attributes the constructor derives. An attribute that some path of the constructor
  never assigns is an \<open>option\<close>: reading it while it is \<open>None\<close> is Python's
  AttributeError.
\<close>

record pipeline = params +
  additionnal_filters :: "crop_pred list"
  no_reference :: bool
  image_pairs_raw_ref_input :: bool
  single_image_raw_depth :: int
  single_image_reference_depth :: int
  fullframe_ref_shape :: "int list option"
  radius_of_view :: int
  patchSize :: int
  full_frame_mode :: bool
  patchSize_is_float :: bool
  cropSize :: "int list"
  image_loading_fn :: "(string \<Rightarrow> error + image) option"
  image_label_transforms :: "transform list"
  image_pixels_transforms :: "transform list"
  post_process_fn :: transform
  nb_global_transforms :: nat
  nb_data_transforms :: nat
  nb_filters :: nat

section \<open>The filter chain\<close>

text \<open>
  \<^verbatim>\<open>_crop_filter\<close>: \<^verbatim>\<open>filter_ok=True; for i in range(self.nb_filters): filter_ok &=
  self.additionnal_filters[i](crop)\<close>. Every predicate is called (no short circuit); the
  first one that raises ends the loop with its exception.
\<close>

fun crop_filter_loop :: "crop_pred list \<Rightarrow> image \<Rightarrow> nat list \<Rightarrow> bool \<Rightarrow> error + bool" where
  "crop_filter_loop fs crop [] filter_ok = Inr filter_ok"
| "crop_filter_loop fs crop (i # rest) filter_ok =
     (if i < length fs
      then (case (fs ! i) crop of
              Inl e \<Rightarrow> Inl e
            | Inr b \<Rightarrow> crop_filter_loop fs crop rest (filter_ok \<and> b))
      else Inl IndexError)"

definition crop_filter :: "'a pipeline_scheme \<Rightarrow> image \<Rightarrow> error + bool" where
  "crop_filter self crop =
     crop_filter_loop (additionnal_filters self) crop [0..<nb_filters self] True"

text \<open>A crop is accepted when the chain returns true.\<close>

definition accepts :: "'a pipeline_scheme \<Rightarrow> image \<Rightarrow> bool" where
  "accepts self crop = (crop_filter self crop = Inr True)"

section \<open>Bounding boxes of the crops\<close>

text \<open>
  \<^verbatim>\<open>tf.random.uniform(shape=[n], minval, maxval, dtype=tf.int32)\<close>: a negative size is
  refused, an empty result is returned before the bounds are looked at, and otherwise
  \<open>minval < maxval\<close> is required; each value is \<open>minval\<close> plus a raw draw of the
  generator modulo the width of the range.
\<close>

definition tf_random_uniform_int :: "(nat \<Rightarrow> nat) \<Rightarrow> int \<Rightarrow> int \<Rightarrow> int \<Rightarrow> error + int list" where
  "tf_random_uniform_int draws n minval maxval =
     (if n < 0 then Inl (InvalidArgumentError ''negative dimension'')
      else if n = 0 then Inr []
      else if maxval \<le> minval then Inl (InvalidArgumentError ''Need minval < maxval'')
      else Inr (map (\<lambda>i. minval + int (draws i) mod (maxval - minval)) [0..<nat n]))"

text \<open>
  \<^verbatim>\<open>tf.range(0, limit, delta)\<close>: \<open>delta\<close> must not be 0 and must point from 0 towards
  \<open>limit\<close>; the values are \<open>0, delta, 2 * delta, ...\<close> strictly before \<open>limit\<close>.
\<close>

definition tf_range :: "int \<Rightarrow> int \<Rightarrow> error + int list" where
  "tf_range limit delta =
     (if delta = 0 then Inl (InvalidArgumentError ''Requires delta != 0'')
      else if 0 < delta then
        (if limit < 0 then Inl (InvalidArgumentError ''Requires start <= limit when delta > 0'')
         else Inr (map (\<lambda>k. int k * delta) [0..<nat ((limit + delta - 1) div delta)]))
      else
        (if 0 < limit then Inl (InvalidArgumentError ''Requires start >= limit when delta < 0'')
         else Inr (map (\<lambda>k. int k * delta) [0..<nat ((- limit + (- delta) - 1) div (- delta))])))"

text \<open>
  The number of random crops of one image:
  \<^verbatim>\<open>tf.cast(coverage * tf.cast(height*width, tf.float32) / tf.constant(patchSize*patchSize,
  dtype=tf.float32), dtype=tf.int32)\<close>, then \<^verbatim>\<open>tf.minimum\<close> with
  \<^verbatim>\<open>max_patches_per_image\<close>. Each float32 operation rounds its exact result.
\<close>

definition patches_float :: "tf_ops \<Rightarrow> 'a pipeline_scheme \<Rightarrow> int \<Rightarrow> int \<Rightarrow> rat" where
  "patches_float ops self height width =
     (let area = f32 ops (of_int (int32 (height * width)));
          patch_area = f32 ops (of_int (patchSize self * patchSize self));
          covered = f32 ops (f32 ops (image_area_coverage_factor self) * area)
      in f32 ops (covered / patch_area))"

definition number_of_patches :: "tf_ops \<Rightarrow> 'a pipeline_scheme \<Rightarrow> int \<Rightarrow> int \<Rightarrow> int" where
  "number_of_patches ops self height width =
     (let nbPatches = tf_cast_int32 (patches_float ops self height width)
      in min nbPatches (max_patches_per_image self))"

text \<open>
  The block \<^verbatim>\<open>prepare_crops_bbox\<close> of \<^verbatim>\<open>crops_dataset\<close>: the (top, left) corners of
  the crops of an image of the given height and width. With shuffling the corners are
  random (\<open>rnd\<close> is the stream of raw draws: the tops take the first draws, the lefts the
  next ones); without, they are the regular grid \<^verbatim>\<open>tf.meshgrid(top_coord, left_coord)\<close>
  flattened, which lists all tops for the first left, then for the second, and so on.
  A patch size of 0 makes the float division infinite or NaN; its cast to int32 is
  the most negative integer on the usual hardware, a size that \<^verbatim>\<open>tf.random.uniform\<close>
  refuses.
\<close>

definition prepare_crops_bbox :: "tf_ops \<Rightarrow> 'a pipeline_scheme \<Rightarrow> (nat \<Rightarrow> nat) \<Rightarrow> int \<Rightarrow> int \<Rightarrow> error + (int \<times> int) list" where
  "prepare_crops_bbox ops self rnd height width =
     (if shuffle_samples self then
        (if patchSize self = 0 then Inl (InvalidArgumentError ''negative dimension'')
         else
           (let nbPatches = number_of_patches ops self height width in
            case tf_random_uniform_int rnd nbPatches 0 (height - patchSize self) of
              Inl e \<Rightarrow> Inl e
            | Inr top_coord \<Rightarrow>
                (case tf_random_uniform_int (\<lambda>i. rnd (nat nbPatches + i)) nbPatches 0 (width - patchSize self) of
                   Inl e \<Rightarrow> Inl e
                 | Inr left_coord \<Rightarrow> Inr (zip top_coord left_coord))))
      else
        (case tf_range (height - patchSize self) (patchSize self - 2 * radius_of_view self) of
           Inl e \<Rightarrow> Inl e
         | Inr top_coord \<Rightarrow>
             (case tf_range (width - patchSize self) (patchSize self - 2 * radius_of_view self) of
                Inl e \<Rightarrow> Inl e
              | Inr left_coord \<Rightarrow>
                  Inr (concat (map (\<lambda>left. map (\<lambda>top. (top, left)) top_coord) left_coord)))))"

section \<open>Cutting and filtering the crops of one image\<close>

text \<open>
  \<^verbatim>\<open>tf.slice(t, begin=[0,0,b], size=[-1,-1,s])\<close>: the channels \<open>b, ..., b+s-1\<close> of every
  pixel (all the channels from \<open>b\<close> on when \<open>s\<close> is -1); a range outside the channels
  of the tensor is refused.
\<close>

definition tf_slice_channels :: "int \<Rightarrow> int \<Rightarrow> image \<Rightarrow> error + image" where
  "tf_slice_channels b s img =
     (let c = image_depth img in
      if b < 0 \<or> c < b \<or> s < - 1 \<or> (0 \<le> s \<and> c < b + s)
      then Inl (InvalidArgumentError ''Expected begin and size within the input'')
      else Inr (map (map (\<lambda>px. if s = - 1 then drop (nat b) px else take (nat s) (drop (nat b) px))) img))"

text \<open>\<^verbatim>\<open>tf.concat([a, b], axis=2)\<close>: heights and widths must agree.\<close>

definition tf_concat_channels :: "image \<Rightarrow> image \<Rightarrow> error + image" where
  "tf_concat_channels a b =
     (if image_height a \<noteq> image_height b \<or> image_width a \<noteq> image_width b
      then Inl (InvalidArgumentError ''Dimensions of inputs should match'')
      else Inr (map2 (map2 (@)) a b))"

text \<open>
  \<^verbatim>\<open>tf.image.crop_to_bounding_box(image, top, left, height, width)\<close> with its checks: the
  target size is positive, the offsets are not negative, the box ends inside the image.
\<close>

definition crop_to_bounding_box :: "image \<Rightarrow> int \<Rightarrow> int \<Rightarrow> int \<Rightarrow> int \<Rightarrow> error + image" where
  "crop_to_bounding_box img offset_height offset_width target_height target_width =
     (if offset_width < 0 then Inl (InvalidArgumentError ''offset_width must be >= 0.'')
      else if offset_height < 0 then Inl (InvalidArgumentError ''offset_height must be >= 0.'')
      else if target_width \<le> 0 then Inl (ValueError ''target_width must be > 0.'')
      else if target_height \<le> 0 then Inl (ValueError ''target_height must be > 0.'')
      else if image_width img < target_width + offset_width
        then Inl (InvalidArgumentError ''width must be >= target + offset.'')
      else if image_height img < target_height + offset_height
        then Inl (InvalidArgumentError ''height must be >= target + offset.'')
      else Inr (map (\<lambda>row. take (nat target_width) (drop (nat offset_width) row))
                  (take (nat target_height) (drop (nat offset_height) img))))"

definition get_crop :: "'a pipeline_scheme \<Rightarrow> image \<Rightarrow> int \<times> int \<Rightarrow> error + image" where
  "get_crop self input_image boxe =
     crop_to_bounding_box input_image (fst boxe) (snd boxe) (patchSize self) (patchSize self)"

text \<open>
  \<^verbatim>\<open>Dataset.map\<close> and \<^verbatim>\<open>Dataset.filter\<close> on a finite dataset. A dataset is the list of
  its elements; an exception raised while it is read ends it, and the model then keeps
  the exception only.
\<close>

fun dataset_map :: "('a \<Rightarrow> error + 'b) \<Rightarrow> 'a list \<Rightarrow> error + 'b list" where
  "dataset_map f [] = Inr []"
| "dataset_map f (x # xs) =
     (case f x of
        Inl e \<Rightarrow> Inl e
      | Inr y \<Rightarrow> (case dataset_map f xs of Inl e \<Rightarrow> Inl e | Inr ys \<Rightarrow> Inr (y # ys)))"

fun dataset_filter :: "('a \<Rightarrow> error + bool) \<Rightarrow> 'a list \<Rightarrow> error + 'a list" where
  "dataset_filter f [] = Inr []"
| "dataset_filter f (x # xs) =
     (case f x of
        Inl e \<Rightarrow> Inl e
      | Inr keep \<Rightarrow>
          (case dataset_filter f xs of
             Inl e \<Rightarrow> Inl e
           | Inr ys \<Rightarrow> Inr (if keep then x # ys else ys)))"

text \<open>
  \<^verbatim>\<open>crops_dataset\<close> of \<^verbatim>\<open>_generate_crops\<close>: load the image, plan the boxes, cut one crop
  per box, keep the crops that the filter chain accepts.
\<close>

definition crops_dataset :: "tf_ops \<Rightarrow> 'a pipeline_scheme \<Rightarrow> (nat \<Rightarrow> nat) \<Rightarrow> string \<Rightarrow> error + image list" where
  "crops_dataset ops self rnd image_filename =
     (case image_loading_fn self of
        None \<Rightarrow> Inl (AttributeError ''image_loading_fn'')
      | Some load \<Rightarrow>
          (case load image_filename of
             Inl e \<Rightarrow> Inl e
           | Inr input_image \<Rightarrow>
               (case prepare_crops_bbox ops self rnd (image_height input_image) (image_width input_image) of
                  Inl e \<Rightarrow> Inl e
                | Inr boxes_raw \<Rightarrow>
                    (case dataset_map (get_crop self input_image) boxes_raw of
                       Inl e \<Rightarrow> Inl e
                     | Inr crops \<Rightarrow> dataset_filter (crop_filter self) crops))))"

section \<open>The predicates that the configuration adds to the chain\<close>

text \<open>
  \<^verbatim>\<open>tf.cast(sample, tf.int32)\<close> of a float tensor. The cast of NaN is not specified by
  TensorFlow; the usual hardware gives the most negative integer.
\<close>

definition cast_fval_int32 :: "fval \<Rightarrow> int" where
  "cast_fval_int32 v = (case v of NaN \<Rightarrow> - 2147483648 | Fin q \<Rightarrow> tf_cast_int32 q)"

text \<open>
  \<^verbatim>\<open>tf.histogram_fixed_width(values, value_range=[0, 255], nbins=256)\<close>: the bin of a value
  is \<open>(max v 0 - 0) / step\<close> with \<open>step = 255 / 256\<close>, cut at the last bin and truncated.
\<close>

definition histogram_bin :: "int \<Rightarrow> nat" where
  "histogram_bin v = nat \<lfloor>min (of_int (max v 0) * 256 / 255 :: rat) 255\<rfloor>"

definition tf_histogram_fixed_width :: "int list \<Rightarrow> nat list" where
  "tf_histogram_fixed_width vals =
     map (\<lambda>b. length (filter (\<lambda>v. histogram_bin v = b) vals)) [0..<256]"

text \<open>
  \<^verbatim>\<open>normalised_entropy(counts)\<close>: the probabilities are the counts divided by their sum,
  the entropy is minus the sum of \<open>p * log (p + 0.001)\<close>, and it is divided by the
  logarithm of 0.001 plus the number of counts that are not 0. The sums, products and
  quotients are exact here. With no count at all the probabilities are 0/0, and the
  result is NaN: \<open>None\<close>.
\<close>

definition normalised_entropy :: "tf_ops \<Rightarrow> nat list \<Rightarrow> rat option" where
  "normalised_entropy ops counts =
     (if sum_list counts = 0 then None
      else
        (let classes_prob = map (\<lambda>c. of_nat c / of_nat (sum_list counts)) counts;
             entropy = - sum_list (map (\<lambda>p. p * tf_log ops (p + 1 / 1000)) classes_prob);
             entropy_normalized =
               entropy / tf_log ops (1 / 1000 + of_nat (length (filter (\<lambda>c. c \<noteq> 0) counts)))
         in Some entropy_normalized))"

definition get_sample_entropy_int :: "tf_ops \<Rightarrow> fval list \<Rightarrow> rat option" where
  "get_sample_entropy_int ops sample =
     normalised_entropy ops (tf_histogram_fixed_width (map cast_fval_int32 sample))"

text \<open>\<^verbatim>\<open>tf.greater(x, threshold)\<close>: false when \<open>x\<close> is NaN.\<close>

definition tf_greater :: "rat option \<Rightarrow> rat \<Rightarrow> bool" where
  "tf_greater x threshold = (case x of None \<Rightarrow> False | Some v \<Rightarrow> threshold < v)"

text \<open>\<^verbatim>\<open>tf.reshape(t, [-1])\<close>: the values of the tensor in row-major order.\<close>

definition tf_flatten :: "image \<Rightarrow> fval list" where
  "tf_flatten img = concat (concat img)"

definition balance_classes_entropy :: "tf_ops \<Rightarrow> 'a pipeline_scheme \<Rightarrow> crop_pred" where
  "balance_classes_entropy ops self crop =
     (case tf_slice_channels (single_image_raw_depth self) (single_image_reference_depth self) crop of
        Inl e \<Rightarrow> Inl e
      | Inr ref_slice \<Rightarrow>
          Inr (tf_greater (get_sample_entropy_int ops (tf_flatten ref_slice))
                 (classes_entropy_threshold self)))"

definition has_no_nans :: crop_pred where
  "has_no_nans crop = Inr (\<not> list_ex (list_ex (list_ex tf_is_nan)) crop)"

text \<open>
  \<^verbatim>\<open>_setup_crop_filters\<close>: the entropy predicate is inserted at the head of the list when
  class balancing is on and there is a reference, then the NaN predicate at the head
  when NaN values are to be avoided; the length of the list is recorded.
\<close>

definition setup_crop_filters :: "tf_ops \<Rightarrow> 'a pipeline_scheme \<Rightarrow> 'a pipeline_scheme" where
  "setup_crop_filters ops self =
     (let with_entropy =
            (if balance_classes_distribution self \<and> \<not> no_reference self
             then balance_classes_entropy ops self # additionnal_filters self
             else additionnal_filters self);
          with_nan =
            (if manage_nan_values self = NanAvoid then has_no_nans # with_entropy else with_entropy)
      in self\<lparr>additionnal_filters := with_nan, nb_filters := length with_nan\<rparr>)"

section \<open>The transform chain\<close>

definition replace_nans_by_zeros :: transform where
  "replace_nans_by_zeros sample sd g =
     Inr (map (map (map (\<lambda>v. if tf_is_nan v then Fin 0 else v))) sample)"

text \<open>
  \<^verbatim>\<open>tf.image.stateless_random_flip_left_right(image, seed)\<close> reverses the width axis, and
  \<^verbatim>\<open>stateless_random_flip_up_down\<close> the height axis, when the draw that the seed
  determines says so.
\<close>

definition stateless_random_flip_left_right :: "tf_ops \<Rightarrow> transform" where
  "stateless_random_flip_left_right ops img sd g =
     Inr (if stateless_flip_left_right_decision ops sd then map rev img else img)"

definition stateless_random_flip_up_down :: "tf_ops \<Rightarrow> transform" where
  "stateless_random_flip_up_down ops img sd g =
     Inr (if stateless_flip_up_down_decision ops sd then rev img else img)"

text \<open>
  \<^verbatim>\<open>tf.image.rot90(img, k)\<close>: \<open>k mod 4\<close> quarter turns; one turn transposes the image
  reversed along its width, two turns reverse both axes, three turns reverse the
  width of the transposed image.
\<close>

definition tf_rot90 :: "image \<Rightarrow> nat \<Rightarrow> image" where
  "tf_rot90 img k =
     (if k mod 4 = 1 then transpose (map rev img)
      else if k mod 4 = 2 then rev (map rev img)
      else if k mod 4 = 3 then map rev (transpose img)
      else img)"

text \<open>
  \<^verbatim>\<open>random_rot90(img, seed)\<close> is \<^verbatim>\<open>tf.image.rot90(img, tf.random.uniform(shape=[], minval=0,
  maxval=4, dtype=tf.int32))\<close>: the number of turns is drawn from the process-wide
  generator \<open>g\<close>; the seed is not read.
\<close>

definition random_rot90 :: transform where
  "random_rot90 img sd g = Inr (tf_rot90 img (g mod 4))"

definition get_image_channels :: "'a pipeline_scheme \<Rightarrow> transform" where
  "get_image_channels self img sd g = tf_slice_channels 0 (single_image_raw_depth self) img"

definition img_standardize :: "tf_ops \<Rightarrow> transform" where
  "img_standardize ops img sd g = Inr (per_image_standardization ops img)"

definition random_brightness :: "tf_ops \<Rightarrow> rat \<Rightarrow> transform" where
  "random_brightness ops max_delta img sd g = Inr (stateless_random_brightness ops max_delta sd img)"

definition random_saturation :: "tf_ops \<Rightarrow> rat \<Rightarrow> rat \<Rightarrow> transform" where
  "random_saturation ops low high img sd g = Inr (stateless_random_saturation ops low high sd img)"

definition random_contrast :: "tf_ops \<Rightarrow> rat \<Rightarrow> rat \<Rightarrow> transform" where
  "random_contrast ops low high img sd g = Inr (stateless_random_contrast ops low high sd img)"

definition no_op :: transform where
  "no_op crop sd g = Inr crop"

text \<open>
  \<^verbatim>\<open>_setup_image_transforms\<close> fills two lists. \<^verbatim>\<open>image_label_transforms\<close> act on the
  raw and reference channels together: NaN replacement, the two flips, the rotation.
  \<^verbatim>\<open>image_pixels_transforms\<close> start with the selection of the raw channels when there
  is a reference, and go on with standardization, brightness, saturation and contrast.
\<close>

definition setup_image_transforms :: "tf_ops \<Rightarrow> 'a pipeline_scheme \<Rightarrow> 'a pipeline_scheme" where
  "setup_image_transforms ops self =
     (let label_transforms =
            (if manage_nan_values self = NanZeros then [replace_nans_by_zeros] else [])
            @ (if apply_random_flip_left_right self then [stateless_random_flip_left_right ops] else [])
            @ (if apply_random_flip_up_down self then [stateless_random_flip_up_down ops] else [])
            @ (if apply_random_rot90 self then [random_rot90] else []);
          pixels_transforms =
            (if \<not> no_reference self then [get_image_channels self] else [])
            @ (if apply_whitening self then [img_standardize ops] else [])
            @ (case apply_random_brightness self of
                 None \<Rightarrow> [] | Some max_delta \<Rightarrow> [random_brightness ops max_delta])
            @ (case apply_random_saturation self of
                 None \<Rightarrow> [] | Some sat \<Rightarrow> [random_saturation ops (1 - sat) (1 + sat)])
            @ (case apply_random_contrast self of
                 None \<Rightarrow> [] | Some con \<Rightarrow> [random_contrast ops (1 - con) (1 + con)]);
          post = (case crops_postprocess self of None \<Rightarrow> no_op | Some f \<Rightarrow> f)
      in self\<lparr>image_label_transforms := label_transforms,
              image_pixels_transforms := pixels_transforms,
              post_process_fn := post,
              nb_global_transforms := length label_transforms,
              nb_data_transforms := length pixels_transforms\<rparr>)"

text \<open>
  The loops \<^verbatim>\<open>for i in range(n): transformed_image = transforms[i](transformed_image,
  seed)\<close> of \<^verbatim>\<open>_image_transform\<close>.
\<close>

fun apply_transforms :: "transform list \<Rightarrow> nat list \<Rightarrow> image \<Rightarrow> seed \<Rightarrow> nat \<Rightarrow> error + image" where
  "apply_transforms ts [] transformed_image sd g = Inr transformed_image"
| "apply_transforms ts (i # rest) transformed_image sd g =
     (if i < length ts
      then (case (ts ! i) transformed_image sd g of
              Inl e \<Rightarrow> Inl e
            | Inr img \<Rightarrow> apply_transforms ts rest img sd g)
      else Inl IndexError)"

definition cast_image :: "tf_ops \<Rightarrow> image \<Rightarrow> image" where
  "cast_image ops img = map (map (map (cast_dtype ops))) img"

text \<open>The first loop of \<^verbatim>\<open>image_transform\<close>: the transforms of raw and reference together.\<close>

definition global_transforms :: "'a pipeline_scheme \<Rightarrow> image \<Rightarrow> seed \<Rightarrow> nat \<Rightarrow> error + image" where
  "global_transforms self input_image sd g =
     apply_transforms (image_label_transforms self) [0..<nb_global_transforms self] input_image sd g"

text \<open>
  \<^verbatim>\<open>image_transform\<close> up to, and without, the call of the post-process function: with a
  reference, the reference channels are sliced off the result of the first loop and
  cast, the second loop runs, and its result is cast and concatenated with them.
\<close>

definition transform_before_post_process :: "tf_ops \<Rightarrow> 'a pipeline_scheme \<Rightarrow> image \<Rightarrow> seed \<Rightarrow> nat \<Rightarrow> error + image" where
  "transform_before_post_process ops self input_image sd g =
     (case global_transforms self input_image sd g of
        Inl e \<Rightarrow> Inl e
      | Inr transformed_image \<Rightarrow>
          (if \<not> no_reference self then
             (case tf_slice_channels (single_image_raw_depth self) (single_image_reference_depth self)
                     transformed_image of
                Inl e \<Rightarrow> Inl e
              | Inr reference_slice \<Rightarrow>
                  (let reference_img = cast_image ops reference_slice in
                   case apply_transforms (image_pixels_transforms self) [0..<nb_data_transforms self]
                          transformed_image sd g of
                     Inl e \<Rightarrow> Inl e
                   | Inr pixels \<Rightarrow> tf_concat_channels (cast_image ops pixels) reference_img))
           else
             apply_transforms (image_pixels_transforms self) [0..<nb_data_transforms self]
               transformed_image sd g))"

text \<open>
  \<^verbatim>\<open>image_transform\<close>. The seed \<open>sd\<close> is \<^verbatim>\<open>self.rng.make_seeds(2)[0]\<close>: \<open>call\<close> counts the
  earlier calls on the generator, which was created from the master seed.
\<close>

definition image_transform :: "tf_ops \<Rightarrow> 'a pipeline_scheme \<Rightarrow> nat \<Rightarrow> nat \<Rightarrow> image \<Rightarrow> error + image" where
  "image_transform ops self call g input_image =
     (let sd = make_seeds ops (seed self) call in
      case transform_before_post_process ops self input_image sd g of
        Inl e \<Rightarrow> Inl e
      | Inr transformed_image \<Rightarrow> post_process_fn self transformed_image sd g)"

text \<open>
  \<^verbatim>\<open>_whiten_sample\<close>. The local variable \<^verbatim>\<open>single_image_channels\<close> is assigned in the
  branch of a pipeline with a reference only; the other branch reads it unassigned.
\<close>

definition whiten_sample :: "tf_ops \<Rightarrow> 'a pipeline_scheme \<Rightarrow> image \<Rightarrow> error + image" where
  "whiten_sample ops self sample =
     (if \<not> no_reference self then
        (case tf_slice_channels 0 (single_image_raw_depth self) sample of
           Inl e \<Rightarrow> Inl e
         | Inr single_image_channels \<Rightarrow>
             (case tf_slice_channels (single_image_raw_depth self) (single_image_reference_depth self) sample of
                Inl e \<Rightarrow> Inl e
              | Inr reference_slice \<Rightarrow>
                  (let reference_img = cast_image ops reference_slice;
                       raw_sample = per_image_standardization ops single_image_channels
                   in tf_concat_channels (cast_image ops raw_sample) reference_img)))
      else
        (case (None :: image option) of
           None \<Rightarrow> Inl (UnboundLocalError ''single_image_channels'')
         | Some single_image_channels \<Rightarrow> Inr (per_image_standardization ops single_image_channels)))"

section \<open>The constructor\<close>

text \<open>
  What the constructor and the stream see of the file system: the shape of the array
  that the selected reader decodes from a path (\<open>None\<close> when it cannot), the same for
  \<^verbatim>\<open>cv2.imread\<close>, which reads the first reference file, and the composite image that
  the loading function of the pipeline returns for a sample descriptor.
\<close>

record files =
  imread_shape :: "string \<Rightarrow> int list option"
  cv2_imread_shape :: "string \<Rightarrow> int list option"
  load_image :: "string \<Rightarrow> error + image"

text \<open>The object after the assignments of the parameters, before anything is derived.\<close>

definition new_object :: "params \<Rightarrow> pipeline" where
  "new_object p =
     params.extend p
       (pipeline.fields
          (case additionnal_filters_arg p of FiltersList l \<Rightarrow> l | FiltersNone \<Rightarrow> [] | FiltersNotAList \<Rightarrow> [])
          False False 0 0 None 0 0 False False [] None [] [] no_op 0 0 0)"

text \<open>
  Reading the first raw image and, with a list of reference files, the first reference
  image: the depths of raw and reference, and the check that both have the same height
  and width. The result carries the shape of the first raw image.
\<close>

definition read_first_images :: "files \<Rightarrow> pipeline \<Rightarrow> error + (int list \<times> pipeline)" where
  "read_first_images fs self =
     (case filelist_raw_data self of
        [] \<Rightarrow> Inl IndexError
      | first_raw # other_raw \<Rightarrow>
          (case imread_shape fs first_raw of
             None \<Rightarrow> Inl (ValueError ''Could no read file'')
           | Some raw0 \<Rightarrow>
               if length raw0 < 2 then Inl IndexError
               else
                 (case filelist_reference_data self of
                    RefLastChannel \<Rightarrow>
                      if length raw0 < 3 then Inl IndexError
                      else Inr (raw0, self\<lparr>single_image_raw_depth := raw0 ! 2 - 1,
                                             single_image_reference_depth := 1,
                                             fullframe_ref_shape := Some raw0\<rparr>)
                  | RefList refs \<Rightarrow>
                      (case refs of
                         [] \<Rightarrow> Inl IndexError
                       | first_ref # other_ref \<Rightarrow>
                           (case cv2_imread_shape fs first_ref of
                              None \<Rightarrow> Inl (AttributeError ''shape'')
                            | Some ref0 \<Rightarrow>
                                if length ref0 < 2 then Inl IndexError
                                else if raw0 ! 0 \<noteq> ref0 ! 0 \<or> raw0 ! 1 \<noteq> ref0 ! 1
                                  then Inl (ValueError ''first input files do not have the same pixel size'')
                                else if \<not> 2 < length raw0 \<and> length raw0 \<noteq> 2
                                  then Inl (ValueError ''input image shape not supported'')
                                else
                                  (let raw_depth = (if 2 < length raw0 then raw0 ! 2 else 1) in
                                   Inr (raw0, self\<lparr>image_pairs_raw_ref_input := True,
                                                    single_image_raw_depth := raw_depth,
                                                    single_image_reference_depth :=
                                                      (if 2 < length ref0 then ref0 ! 2 else 1),
                                                    fullframe_ref_shape :=
                                                      Some (raw0[length raw0 - 1 := raw_depth + 1])\<rparr>))))
                  | RefAbsent \<Rightarrow>
                      if length raw0 < 3 then Inl IndexError
                      else Inr (raw0, self\<lparr>no_reference := True,
                                             single_image_raw_depth := raw0 ! 2,
                                             single_image_reference_depth := 0\<rparr>))))"

text \<open>Python's \<^verbatim>\<open>int(x)\<close> of a float truncates towards zero.\<close>

definition py_int :: "rat \<Rightarrow> int" where
  "py_int q = (if 0 \<le> q then \<lfloor>q\<rfloor> else \<lceil>q\<rceil>)"

text \<open>
  The radius of view, the full-frame decision and the patch size. A ratio of 1 or below
  0 sets the ratio and the maximal number of patches to 1. A ratio above 1 is a patch
  size in pixels and is stored as it is: \<open>patchSize_is_float\<close> records that it was not
  a whole number, which no integer tensor accepts later.
\<close>

definition setup_geometry :: "int list \<Rightarrow> pipeline \<Rightarrow> error + pipeline" where
  "setup_geometry raw0 self =
     (let ratio = patch_ratio_vs_input self in
      if raw0 ! 1 = 0 then Inl ZeroDivisionError
      else
        (let self1 = self\<lparr>radius_of_view := (if 0 < field_of_view self then (field_of_view self - 1) div 2 else 0)\<rparr>;
             self2 = (if ratio = 1 \<or> ratio < 0
                      then self1\<lparr>patch_ratio_vs_input := 1, max_patches_per_image := 1\<rparr>
                      else self1)
         in
           if 1 < ratio \<and> raw0 ! 0 = 0 then Inl ZeroDivisionError
           else
             (let self3 = (if 1 < ratio
                           then self2\<lparr>patchSize := \<lfloor>ratio\<rfloor>,
                                      patchSize_is_float := (of_int \<lfloor>ratio\<rfloor> \<noteq> ratio),
                                      patch_ratio_vs_input := ratio / of_int (raw0 ! 0)\<rparr>
                           else self2\<lparr>patchSize := py_int (of_int (raw0 ! 0) * ratio)\<rparr>)
              in Inr (self3\<lparr>full_frame_mode :=
                               (patch_ratio_vs_input self3 = of_int (max_patches_per_image self3)
                                \<and> max_patches_per_image self3 = 1)\<rparr>))))"

text \<open>
  \<^verbatim>\<open>_setup_load_raw_images_from_filenames\<close>. With separate reference files and a value
  of \<^verbatim>\<open>use_alternative_imread\<close> that is neither \<^verbatim>\<open>None\<close> nor one of the three backends
  (the default \<^verbatim>\<open>False\<close>), no loading function is assigned.
\<close>

definition setup_load_raw_images_from_filenames :: "files \<Rightarrow> pipeline \<Rightarrow> error + pipeline" where
  "setup_load_raw_images_from_filenames fs self =
     (let known = (use_alternative_imread self = OpenCV \<or> use_alternative_imread self = GDAL
                    \<or> use_alternative_imread self = Rasterio)
      in
        if image_pairs_raw_ref_input self then
          (if use_alternative_imread self \<noteq> ImreadNone then
             (if known then Inr (self\<lparr>image_loading_fn := Some (load_image fs)\<rparr>) else Inr self)
           else Inr (self\<lparr>image_loading_fn := Some (load_image fs)\<rparr>))
        else
          (if known then Inr (self\<lparr>image_loading_fn := Some (load_image fs)\<rparr>)
           else Inl (ValueError ''Neither OpenCV nor GDAL selected to read data and ground truth from the same image'')))"

text \<open>
  \<^verbatim>\<open>_create_data_pipeline\<close>, as far as it can raise while the constructor runs. In
  full-frame mode it reads \<^verbatim>\<open>self._load_raw_images_from_filenames\<close>, an attribute that
  the class does not define. Otherwise \<^verbatim>\<open>interleave\<close> traces \<^verbatim>\<open>_generate_crops\<close>, which
  reads the loading function, subtracts the patch size from an integer tensor and calls
  \<^verbatim>\<open>crop_to_bounding_box\<close> with the patch size as a static target size.
\<close>

definition create_data_pipeline :: "pipeline \<Rightarrow> error + pipeline" where
  "create_data_pipeline self =
     (if full_frame_mode self then Inl (AttributeError ''_load_raw_images_from_filenames'')
      else
        (case image_loading_fn self of
           None \<Rightarrow> Inl (AttributeError ''image_loading_fn'')
         | Some load \<Rightarrow>
             if patchSize_is_float self then Inl (TypeError ''Cannot convert to int32'')
             else if patchSize self \<le> 0 then Inl (ValueError ''target_width must be > 0.'')
             else Inr self))"

text \<open>\<^verbatim>\<open>__init__\<close>, in the order of its statements.\<close>

definition init :: "tf_ops \<Rightarrow> files \<Rightarrow> params \<Rightarrow> error + pipeline" where
  "init ops fs p =
     (let self = new_object p in
      if image_area_coverage_factor self \<le> 0
        then Inl (ValueError ''image_area_coverage_factor must be above 0'')
      else if (case additionnal_filters_arg self of
                 FiltersNotAList \<Rightarrow> True | FiltersNone \<Rightarrow> False | FiltersList l \<Rightarrow> False)
        then Inl (ValueError ''additionnal_filters must be a list of functions'')
      else
        (case read_first_images fs self of
           Inl e \<Rightarrow> Inl e
         | Inr (raw0, self1) \<Rightarrow>
             (case setup_geometry raw0 self1 of
                Inl e \<Rightarrow> Inl e
              | Inr self2 \<Rightarrow>
                  if field_of_view self2 mod 2 = 0 \<and> field_of_view self2 \<noteq> 0
                    then Inl (ValueError ''field_of_view must be odd or 0'')
                  else if full_frame_mode self2 \<and> fullframe_ref_shape self2 = None
                    then Inl (AttributeError ''fullframe_ref_shape'')
                  else
                    (let self3 = self2\<lparr>cropSize :=
                           (if full_frame_mode self2 then the (fullframe_ref_shape self2)
                            else [patchSize self2, patchSize self2,
                                  single_image_raw_depth self2 + single_image_reference_depth self2])\<rparr>
                     in case setup_load_raw_images_from_filenames fs self3 of
                          Inl e \<Rightarrow> Inl e
                        | Inr self4 \<Rightarrow>
                            create_data_pipeline
                              (setup_crop_filters ops (setup_image_transforms ops self4))))))"

section \<open>The stream of batches\<close>

text \<open>
  What differs between two runs of the same program on the same files: the state of
  the generators that no seed of the pipeline sets. \<open>shuffle_order\<close> is the order in
  which \<^verbatim>\<open>Dataset.shuffle\<close> hands out the descriptors, \<open>crop_draws k\<close> the raw draws of
  \<^verbatim>\<open>tf.random.uniform\<close> while the k-th opened image is cropped, and \<open>uniform_draw i\<close> the
  raw draw of \<^verbatim>\<open>tf.random.uniform\<close> during the i-th call of \<^verbatim>\<open>_image_transform\<close>.
\<close>

record run =
  shuffle_order :: "string list \<Rightarrow> string list"
  crop_draws :: "nat \<Rightarrow> nat \<Rightarrow> nat"
  uniform_draw :: "nat \<Rightarrow> nat"

definition filenames_separator :: string where
  "filenames_separator = ''###''"

text \<open>
  \<^verbatim>\<open>_create_dataset_filenames\<close> for a finite number of epochs: the descriptors, repeated,
  and shuffled when shuffling is on.
\<close>

definition create_dataset_filenames :: "run \<Rightarrow> 'a pipeline_scheme \<Rightarrow> string list" where
  "create_dataset_filenames r self =
     (let datasetFiles =
            (if image_pairs_raw_ref_input self
             then map (\<lambda>(string1, string2). string1 @ filenames_separator @ string2)
                    (zip (filelist_raw_data self)
                       (case filelist_reference_data self of RefList refs \<Rightarrow> refs | RefLastChannel \<Rightarrow> [] | RefAbsent \<Rightarrow> []))
             else filelist_raw_data self);
          repeated = concat (replicate (nat (nbEpoch self)) datasetFiles)
      in if shuffle_samples self then shuffle_order r repeated else repeated)"

text \<open>
  \<^verbatim>\<open>Dataset.interleave(cycle_length, block_length=1)\<close> in its deterministic order. The
  cycle of slots is a list whose head is the current slot. An open slot gives its next
  element and the cycle moves on; an exhausted slot is closed and the cycle moves on; a
  closed slot opens the next input element, or, when the input is exhausted, the
  cycle moves on unless every slot is closed.
\<close>

fun slot_size :: "'a list option \<Rightarrow> nat" where
  "slot_size None = 0"
| "slot_size (Some it) = Suc (length it)"

fun input_size :: "error + 'a list \<Rightarrow> nat" where
  "input_size (Inl e) = 2"
| "input_size (Inr elems) = length elems + 2"

function interleave_cycle :: "'a list option list \<Rightarrow> (error + 'a list) list \<Rightarrow> error + 'a list" where
  "interleave_cycle [] pending = Inr []"
| "interleave_cycle (Some (x # it) # others) pending =
     (case interleave_cycle (others @ [Some it]) pending of
        Inl e \<Rightarrow> Inl e
      | Inr xs \<Rightarrow> Inr (x # xs))"
| "interleave_cycle (Some [] # others) pending = interleave_cycle (others @ [None]) pending"
| "interleave_cycle (None # others) (Inl e # inputs) = Inl e"
| "interleave_cycle (None # others) (Inr elems # inputs) = interleave_cycle (Some elems # others) inputs"
| "interleave_cycle (None # others) [] =
     (if list_all (\<lambda>slot. slot = None) others then Inr []
      else interleave_cycle (others @ [None]) [])"
  by pat_completeness auto
termination
proof (relation "measures [\<lambda>(cycle, pending). sum_list (map slot_size cycle) + sum_list (map input_size pending),
                           \<lambda>(cycle, pending). length (takeWhile (\<lambda>slot. slot = None) cycle)]", goal_cases)
  case 1
  then show ?case by simp
next
  case (2 x it others pending)
  then show ?case by simp
next
  case (3 others pending)
  then show ?case by simp
next
  case (4 others elems inputs)
  then show ?case by simp
next
  case (5 others)
  then have "\<exists>slot\<in>set others. slot \<noteq> None" by (simp add: list_all_iff)
  then have "takeWhile (\<lambda>slot. slot = None) (others @ [None]) = takeWhile (\<lambda>slot. slot = None) others"
    by auto
  then show ?case by simp
qed

text \<open>\<^verbatim>\<open>Dataset.batch(n, drop_remainder=True)\<close>: groups of \<open>n\<close>, an incomplete last group dropped.\<close>

function dataset_batch :: "nat \<Rightarrow> 'a list \<Rightarrow> 'a list list" where
  "dataset_batch n xs =
     (if n = 0 \<or> length xs < n then [] else take n xs # dataset_batch n (drop n xs))"
  by pat_completeness auto
termination
  by (relation "measure (\<lambda>(n, xs). length xs)") auto

text \<open>
  The crops of the whole run, before any transform: one dataset of crops per descriptor,
  interleaved over \<^verbatim>\<open>num_reader_threads\<close> slots.
\<close>

definition crops_stream :: "tf_ops \<Rightarrow> run \<Rightarrow> 'a pipeline_scheme \<Rightarrow> error + image list" where
  "crops_stream ops r self =
     (if num_reader_threads self = 0 then Inl (InvalidArgumentError ''cycle_length must be > 0'')
      else
        interleave_cycle (replicate (num_reader_threads self) None)
          (map (\<lambda>(k, image_filename). crops_dataset ops self (crop_draws r k) image_filename)
             (enumerate 0 (create_dataset_filenames r self))))"

text \<open>
  The batches that a pipeline with a finite number of epochs produces in one run, as
  \<^verbatim>\<open>_create_data_pipeline\<close> composes them: crops, transform of every crop, batches. The
  calls of the transform are numbered in the order of the crops. With a negative number
  of epochs the stream does not end: \<open>None\<close>.
\<close>

definition pipeline_batches :: "tf_ops \<Rightarrow> run \<Rightarrow> 'a pipeline_scheme \<Rightarrow> (error + image list list) option" where
  "pipeline_batches ops r self =
     (if nbEpoch self < 0 then None
      else Some
        (if full_frame_mode self then Inl (AttributeError ''_load_raw_images_from_filenames'')
         else
           (case crops_stream ops r self of
              Inl e \<Rightarrow> Inl e
            | Inr crops \<Rightarrow>
                (case dataset_map (\<lambda>(call, crop). image_transform ops self call (uniform_draw r call) crop)
                        (enumerate 0 crops) of
                   Inl e \<Rightarrow> Inl e
                 | Inr samples \<Rightarrow>
                     if batch_size self = 0 then Inl (InvalidArgumentError ''batch_size must be > 0'')
                     else Inr (dataset_batch (batch_size self) samples)))))"

section \<open>Concrete inputs\<close>

text \<open>
  A stand-in for the library operations, for evaluating the model on concrete inputs:
  exact arithmetic, casts that change nothing, a brightness that adds its bound to every
  finite value, a contrast that scales by its upper factor, flips decided by the parity
  of the seed, and \<open>x - 1\<close> in the place of the logarithm of \<open>x\<close>.
\<close>

definition example_ops :: tf_ops where
  "example_ops =
     \<lparr>f32 = (\<lambda>q. q),
      cast_dtype = (\<lambda>v. v),
      per_image_standardization = (\<lambda>img. img),
      stateless_random_brightness =
        (\<lambda>max_delta sd img. map (map (map (\<lambda>v. case v of NaN \<Rightarrow> NaN | Fin q \<Rightarrow> Fin (q + max_delta)))) img),
      stateless_random_saturation = (\<lambda>low high sd img. img),
      stateless_random_contrast =
        (\<lambda>low high sd img. map (map (map (\<lambda>v. case v of NaN \<Rightarrow> NaN | Fin q \<Rightarrow> Fin (q * high)))) img),
      stateless_flip_left_right_decision = (\<lambda>sd. even (fst sd)),
      stateless_flip_up_down_decision = (\<lambda>sd. even (snd sd)),
      make_seeds = (\<lambda>master call. (nat \<bar>master\<bar> + call, call)),
      tf_log = (\<lambda>x. x - 1)\<rparr>"

text \<open>Parameters close to the defaults of the constructor, for one raw file.\<close>

definition example_params :: params where
  "example_params =
     \<lparr>filelist_raw_data = [''img0''],
      filelist_reference_data = RefLastChannel,
      nbEpoch = 1,
      shuffle_samples = True,
      patch_ratio_vs_input = 1 / 2,
      max_patches_per_image = 10,
      image_area_coverage_factor = 2,
      num_reader_threads = 4,
      apply_random_flip_left_right = True,
      apply_random_flip_up_down = False,
      apply_random_rot90 = False,
      apply_random_brightness = Some (1 / 2),
      apply_random_saturation = Some (1 / 2),
      apply_random_contrast = Some (1 / 2),
      apply_whitening = True,
      batch_size = 1,
      use_alternative_imread = OpenCV,
      balance_classes_distribution = False,
      classes_entropy_threshold = 3 / 5,
      field_of_view = 0,
      manage_nan_values = NanNone,
      additionnal_filters_arg = FiltersNone,
      crops_postprocess = None,
      seed = 42\<rparr>"

text \<open>A run whose unseeded generators always draw 0 and whose shuffle keeps the order.\<close>

definition example_run :: run where
  "example_run = \<lparr>shuffle_order = (\<lambda>names. names), crop_draws = (\<lambda>k i. 0), uniform_draw = (\<lambda>call. 0)\<rparr>"

text \<open>
  A composite image of height 3 and width 3 with one raw channel and one reference
  channel; the raw value of its first pixel is NaN.
\<close>

definition example_image :: image where
  "example_image =
     [[[NaN, Fin 1], [Fin 2, Fin 1], [Fin 3, Fin 0]],
      [[Fin 4, Fin 0], [Fin 5, Fin 1], [Fin 6, Fin 1]],
      [[Fin 7, Fin 0], [Fin 8, Fin 0], [Fin 9, Fin 1]]]"

text \<open>
  An object for that image: one raw and one reference channel, patches of size 1 on the
  regular grid, a loading function that returns the image for every descriptor.
\<close>

definition example_object :: pipeline where
  "example_object =
     (new_object example_params)
       \<lparr>shuffle_samples := False,
        single_image_raw_depth := 1,
        single_image_reference_depth := 1,
        patchSize := 1,
        image_loading_fn := Some (\<lambda>image_filename. Inr example_image)\<rparr>"

text \<open>
  Files for the constructor: every raw file decodes to an array of shape (3, 3, 2), every
  reference file to one of shape (3, 3), and every descriptor loads \<open>example_image\<close>.
\<close>

definition example_files :: files where
  "example_files =
     \<lparr>imread_shape = (\<lambda>path. Some [3, 3, 2]),
      cv2_imread_shape = (\<lambda>path. Some [3, 3]),
      load_image = (\<lambda>descriptor. Inr example_image)\<rparr>"

text \<open>
  An evaluation configuration with the random rotation as its only augmentation: one
  raw file without reference, read by OpenCV, one epoch, no shuffling, patches of two
  thirds of the image height on the regular grid, batches of one crop.
\<close>

definition rot90_params :: params where
  "rot90_params =
     example_params
       \<lparr>filelist_reference_data := RefAbsent,
        shuffle_samples := False,
        patch_ratio_vs_input := 2 / 3,
        apply_random_flip_left_right := False,
        apply_random_rot90 := True,
        apply_random_brightness := None,
        apply_random_saturation := None,
        apply_random_contrast := None,
        apply_whitening := False\<rparr>"

text \<open>Files for it: a raw image of height 3 and width 3 with one channel.\<close>

definition rot90_files :: files where
  "rot90_files =
     \<lparr>imread_shape = (\<lambda>path. Some [3, 3, 1]),
      cv2_imread_shape = (\<lambda>path. None),
      load_image =
        (\<lambda>descriptor. Inr [[[Fin 1], [Fin 2], [Fin 3]],
                           [[Fin 4], [Fin 5], [Fin 6]],
                           [[Fin 7], [Fin 8], [Fin 9]]])\<rparr>"

section \<open>Shapes\<close>

text \<open>
  TensorFlow's standardization, brightness, saturation and contrast return a tensor of
  the shape of their argument. The model takes these operations as parameters, so the
  fact is a condition on the parameters.
\<close>

definition keeps_shape :: "(image \<Rightarrow> image) \<Rightarrow> bool" where
  "keeps_shape f = (\<forall>h w c img. is_tensor h w c img \<longrightarrow> is_tensor h w c (f img))"

definition shape_preserving :: "tf_ops \<Rightarrow> bool" where
  "shape_preserving ops =
     (keeps_shape (per_image_standardization ops)
      \<and> (\<forall>max_delta sd. keeps_shape (stateless_random_brightness ops max_delta sd))
      \<and> (\<forall>low high sd. keeps_shape (stateless_random_saturation ops low high sd))
      \<and> (\<forall>low high sd. keeps_shape (stateless_random_contrast ops low high sd)))"

text \<open>A transform that never raises and returns a tensor of the shape of its argument.\<close>

definition keeps_shape_transform :: "transform \<Rightarrow> bool" where
  "keeps_shape_transform t =
     (\<forall>img sd g. \<exists>img'. t img sd g = Inr img' \<and> (\<forall>h w c. is_tensor h w c img \<longrightarrow> is_tensor h w c img'))"

section \<open>The filter chain is a conjunction\<close>

lemma crop_filter_loop_True:
  "\<forall>i\<in>set idx. i < length fs \<Longrightarrow>
   crop_filter_loop fs crop idx ok = Inr True \<longleftrightarrow> (ok \<and> (\<forall>i\<in>set idx. (fs ! i) crop = Inr True))"
proof (induction idx arbitrary: ok)
  case Nil
  then show ?case by simp
next
  case (Cons i rest)
  then show ?case by (cases "(fs ! i) crop") auto
qed

lemma accepts_iff_all:
  assumes "nb_filters self = length (additionnal_filters self)"
  shows "accepts self crop \<longleftrightarrow> (\<forall>f\<in>set (additionnal_filters self). f crop = Inr True)"
proof -
  have "accepts self crop \<longleftrightarrow> (\<forall>i<length (additionnal_filters self). (additionnal_filters self ! i) crop = Inr True)"
    unfolding accepts_def crop_filter_def using assms
    by (subst crop_filter_loop_True) auto
  then show ?thesis by (simp add: all_set_conv_all_nth)
qed

text \<open>
  Claim C5. Once \<^verbatim>\<open>_setup_crop_filters\<close> has recorded the length of the chain, the chain
  accepts a crop exactly when every predicate of the chain returns true on it; the empty
  chain accepts every crop; and a pipeline whose chain holds the same predicates in
  another order accepts the same crops.
\<close>

theorem crop_filter_is_conjunction:
  assumes "nb_filters (self :: 'a pipeline_scheme) = length (additionnal_filters self)"
  shows "(accepts self crop \<longleftrightarrow> (\<forall>f\<in>set (additionnal_filters self). f crop = Inr True))
       \<and> (additionnal_filters self = [] \<longrightarrow> accepts self crop)
       \<and> (\<forall>other :: 'a pipeline_scheme. nb_filters other = length (additionnal_filters other)
             \<and> mset (additionnal_filters other) = mset (additionnal_filters self)
             \<longrightarrow> accepts other crop = accepts self crop)"
proof (intro conjI allI impI)
  show "accepts self crop \<longleftrightarrow> (\<forall>f\<in>set (additionnal_filters self). f crop = Inr True)"
    using assms by (rule accepts_iff_all)
next
  assume "additionnal_filters self = []"
  then show "accepts self crop" using accepts_iff_all [OF assms, of crop] by simp
next
  fix other :: "'a pipeline_scheme"
  assume h: "nb_filters other = length (additionnal_filters other)
       \<and> mset (additionnal_filters other) = mset (additionnal_filters self)"
  then have "set (additionnal_filters other) = set (additionnal_filters self)"
    by (metis mset_eq_setD)
  then show "accepts other crop = accepts self crop"
    using accepts_iff_all [OF assms, of crop] accepts_iff_all [of other crop] h by simp
qed

theorem crop_filter_is_conjunction_witness:
  "nb_filters (setup_crop_filters example_ops ((new_object example_params)
        \<lparr>manage_nan_values := NanAvoid, additionnal_filters := [\<lambda>crop. Inr (crop \<noteq> [])]\<rparr>))
     = length (additionnal_filters (setup_crop_filters example_ops ((new_object example_params)
        \<lparr>manage_nan_values := NanAvoid, additionnal_filters := [\<lambda>crop. Inr (crop \<noteq> [])]\<rparr>)))
   \<and> accepts (setup_crop_filters example_ops ((new_object example_params)
        \<lparr>manage_nan_values := NanAvoid, additionnal_filters := [\<lambda>crop. Inr (crop \<noteq> [])]\<rparr>))
        [[[Fin 1]]]
   \<and> \<not> accepts (setup_crop_filters example_ops ((new_object example_params)
        \<lparr>manage_nan_values := NanAvoid, additionnal_filters := [\<lambda>crop. Inr (crop \<noteq> [])]\<rparr>))
        [[[NaN]]]"
proof -
  let ?self = "setup_crop_filters example_ops ((new_object example_params)
        \<lparr>manage_nan_values := NanAvoid, additionnal_filters := [\<lambda>crop. Inr (crop \<noteq> [])]\<rparr>)"
  have fs: "additionnal_filters ?self = [has_no_nans, \<lambda>crop. Inr (crop \<noteq> [])]"
    by (simp add: setup_crop_filters_def Let_def new_object_def example_params_def params.defs pipeline.defs)
  have n: "nb_filters ?self = length (additionnal_filters ?self)"
    by (simp add: setup_crop_filters_def Let_def)
  have "accepts ?self crop \<longleftrightarrow> (\<forall>f\<in>set (additionnal_filters ?self). f crop = Inr True)" for crop
    using crop_filter_is_conjunction [OF n, of crop] by blast
  then have iff: "accepts ?self crop \<longleftrightarrow> (\<forall>f\<in>set [has_no_nans, \<lambda>crop. Inr (crop \<noteq> [])]. f crop = Inr True)"
    for crop
    by (simp only: fs)
  have "accepts ?self [[[Fin 1]]]"
    by (simp add: iff has_no_nans_def tf_is_nan_def)
  moreover have "\<not> accepts ?self [[[NaN]]]"
    by (simp add: iff has_no_nans_def tf_is_nan_def)
  ultimately show ?thesis using n by simp
qed

section \<open>The boxes of the crops\<close>

lemma tf_random_uniform_int_bounds:
  "tf_random_uniform_int draws n lo hi = Inr xs \<Longrightarrow> x \<in> set xs \<Longrightarrow> lo \<le> x \<and> x < hi"
proof -
  assume a: "tf_random_uniform_int draws n lo hi = Inr xs" "x \<in> set xs"
  then have lt: "lo < hi" by (auto simp: tf_random_uniform_int_def split: if_splits)
  from a obtain i where x: "x = lo + int (draws i) mod (hi - lo)"
    by (auto simp: tf_random_uniform_int_def split: if_splits)
  have "0 \<le> int (draws i) mod (hi - lo)" "int (draws i) mod (hi - lo) < hi - lo"
    using lt by simp_all
  then show ?thesis using x by linarith
qed


lemma grid_step_below:
  assumes "0 < (d::int)" "k < nat ((l + d - 1) div d)"
  shows "int k * d < l"
proof -
  have "int k + 1 \<le> (l + d - 1) div d" using assms by linarith
  then have "(int k + 1) * d \<le> ((l + d - 1) div d) * d"
    using assms(1) by (simp add: mult_right_mono)
  also have "\<dots> = (l + d - 1) - (l + d - 1) mod d"
    by (simp add: minus_mod_eq_div_mult)
  also have "\<dots> \<le> l + d - 1"
  proof -
    have "0 \<le> (l + d - 1) mod d" using assms(1) by (rule pos_mod_sign)
    then show ?thesis by linarith
  qed
  finally show ?thesis by (simp add: algebra_simps)
qed

lemma tf_range_bounds:
  assumes "tf_range limit delta = Inr xs" "0 \<le> limit" "x \<in> set xs"
  shows "0 \<le> x \<and> x < limit"
proof (cases "0 < delta")
  case True
  with assms obtain k where "k < nat ((limit + delta - 1) div delta)" "x = int k * delta"
    by (auto simp: tf_range_def split: if_splits)
  then show ?thesis using True grid_step_below [of delta k limit] by simp
next
  case False
  with assms have "limit = 0" "delta < 0"
    by (auto simp: tf_range_def split: if_splits)
  then have "(- limit + (- delta) - 1) div (- delta) = 0"
    by (simp add: div_pos_pos_trivial)
  with assms False \<open>limit = 0\<close> show ?thesis
    by (auto simp: tf_range_def split: if_splits)
qed

text \<open>
  Claim C4. When the patch size is at most the height and the width of the image, every
  box that \<^verbatim>\<open>crops_dataset\<close> plans, with random corners or on the regular grid, has its
  top between 0 and height - patchSize and its left between 0 and width - patchSize.
\<close>

theorem crop_boxes_inside_image:
  assumes "patchSize self \<le> height" and "patchSize self \<le> width"
    and "prepare_crops_bbox ops self rnd height width = Inr boxes"
    and "(box_top, box_left) \<in> set boxes"
  shows "0 \<le> box_top \<and> box_top \<le> height - patchSize self
       \<and> 0 \<le> box_left \<and> box_left \<le> width - patchSize self"
proof (cases "shuffle_samples self")
  case True
  with assms(3) obtain top_coord left_coord n where
    t: "tf_random_uniform_int rnd n 0 (height - patchSize self) = Inr top_coord" and
    l: "tf_random_uniform_int (\<lambda>i. rnd (nat n + i)) n 0 (width - patchSize self) = Inr left_coord" and
    b: "boxes = zip top_coord left_coord"
    by (auto simp: prepare_crops_bbox_def Let_def split: if_splits sum.splits)
  from b assms(4) have "box_top \<in> set top_coord" "box_left \<in> set left_coord"
    by (auto dest: set_zip_leftD set_zip_rightD)
  then show ?thesis
    using tf_random_uniform_int_bounds [OF t] tf_random_uniform_int_bounds [OF l] by fastforce
next
  case False
  with assms(3) obtain top_coord left_coord where
    t: "tf_range (height - patchSize self) (patchSize self - 2 * radius_of_view self) = Inr top_coord" and
    l: "tf_range (width - patchSize self) (patchSize self - 2 * radius_of_view self) = Inr left_coord" and
    b: "boxes = concat (map (\<lambda>left. map (\<lambda>top. (top, left)) top_coord) left_coord)"
    by (auto simp: prepare_crops_bbox_def split: sum.splits)
  from b assms(4) have "box_top \<in> set top_coord" "box_left \<in> set left_coord" by auto
  then show ?thesis
    using tf_range_bounds [OF t] tf_range_bounds [OF l] assms(1,2) by fastforce
qed

theorem crop_boxes_inside_image_witness:
  "prepare_crops_bbox example_ops ((new_object example_params)\<lparr>patchSize := 4, shuffle_samples := False\<rparr>)
      (\<lambda>i. i) 9 12 = Inr [(0, 0), (4, 0), (0, 4), (4, 4)]
   \<and> prepare_crops_bbox example_ops ((new_object example_params)\<lparr>patchSize := 4\<rparr>)
      (\<lambda>i. 7 * i + 3) 9 12
      = Inr [(3, 1), (0, 0), (2, 7), (4, 6), (1, 5), (3, 4), (0, 3), (2, 2), (4, 1), (1, 0)]
   \<and> (0 \<le> (4::int) \<and> (4::int) \<le> 9 - 4 \<and> 0 \<le> (4::int) \<and> (4::int) \<le> 12 - 4)
   \<and> (0 \<le> (2::int) \<and> (2::int) \<le> 9 - 4 \<and> 0 \<le> (7::int) \<and> (7::int) \<le> 12 - 4)"
proof -
  let ?grid = "(new_object example_params)\<lparr>patchSize := 4, shuffle_samples := False\<rparr>"
  let ?random = "(new_object example_params)\<lparr>patchSize := 4\<rparr>"
  have ps: "patchSize ?grid = 4" "patchSize ?random = 4" by simp_all
  have g: "prepare_crops_bbox example_ops ?grid (\<lambda>i. i) 9 12 = Inr [(0, 0), (4, 0), (0, 4), (4, 4)]"
    by code_simp
  have r: "prepare_crops_bbox example_ops ?random (\<lambda>i. 7 * i + 3) 9 12
      = Inr [(3, 1), (0, 0), (2, 7), (4, 6), (1, 5), (3, 4), (0, 3), (2, 2), (4, 1), (1, 0)]"
    by code_simp
  have "0 \<le> (4::int) \<and> 4 \<le> 9 - patchSize ?grid \<and> 0 \<le> (4::int) \<and> 4 \<le> 12 - patchSize ?grid"
    using crop_boxes_inside_image [OF _ _ g, of 4 4] ps by simp
  moreover have "0 \<le> (2::int) \<and> 2 \<le> 9 - patchSize ?random \<and> 0 \<le> (7::int) \<and> 7 \<le> 12 - patchSize ?random"
    using crop_boxes_inside_image [OF _ _ r, of 2 7] ps by simp
  ultimately show ?thesis using g r ps by simp
qed





section \<open>Whitening in full-frame mode\<close>

text \<open>
  Claim C10. On a pipeline object without reference (\<^verbatim>\<open>no_reference\<close> true), as the
  full-frame branch of \<^verbatim>\<open>_create_data_pipeline\<close> would map it over the images when
  whitening is on, \<^verbatim>\<open>_whiten_sample\<close> raises UnboundLocalError for
  \<^verbatim>\<open>single_image_channels\<close> on every sample and returns no whitened sample.
\<close>

theorem whiten_sample_without_reference_raises:
  assumes "no_reference self"
  shows "whiten_sample ops self sample = Inl (UnboundLocalError ''single_image_channels'')"
  using assms by (simp add: whiten_sample_def)

theorem whiten_sample_without_reference_raises_witness:
  "no_reference ((new_object example_params)\<lparr>no_reference := True, full_frame_mode := True\<rparr>)
   \<and> full_frame_mode ((new_object example_params)\<lparr>no_reference := True, full_frame_mode := True\<rparr>)
   \<and> apply_whitening ((new_object example_params)\<lparr>no_reference := True, full_frame_mode := True\<rparr>)
   \<and> whiten_sample example_ops ((new_object example_params)\<lparr>no_reference := True, full_frame_mode := True\<rparr>)
         [[[Fin 1, Fin 2]]] = Inl (UnboundLocalError ''single_image_channels'')"
proof -
  let ?self = "(new_object example_params)\<lparr>no_reference := True, full_frame_mode := True\<rparr>"
  have n: "no_reference ?self" by simp
  have w: "apply_whitening ?self" by code_simp
  show ?thesis
    using whiten_sample_without_reference_raises [OF n, of example_ops "[[[Fin 1, Fin 2]]]"] w by simp
qed

section \<open>The entropy of a constant reference\<close>

lemma histogram_bin_less: "histogram_bin v < 256"
proof -
  have "min (of_int (max v 0) * 256 / 255 :: rat) 255 \<le> 255" by simp
  then have "\<lfloor>min (of_int (max v 0) * 256 / 255 :: rat) 255\<rfloor> \<le> \<lfloor>255 :: rat\<rfloor>"
    by (rule floor_mono)
  then have "\<lfloor>min (of_int (max v 0) * 256 / 255 :: rat) 255\<rfloor> \<le> 255" by simp
  then show ?thesis unfolding histogram_bin_def by linarith
qed

lemma sum_list_single_index:
  "sum_list (map (\<lambda>b. if b = k then x else 0) [0..<m]) = (if k < m then x else (0 :: 'a :: comm_monoid_add))"
  by (induction m) auto

lemma count_nonzero_single_index:
  "length (filter (\<lambda>c. c \<noteq> 0) (map (\<lambda>b. if b = k then n else (0::nat)) [0..<m]))
     = (if k < m \<and> n \<noteq> 0 then 1 else 0)"
  by (induction m) auto

lemma histogram_constant:
  assumes "\<forall>x\<in>set vals. x = c"
  shows "tf_histogram_fixed_width vals = map (\<lambda>b. if b = histogram_bin c then length vals else 0) [0..<256]"
proof -
  have "filter (\<lambda>v. histogram_bin v = b) vals = (if b = histogram_bin c then vals else [])" for b
    using assms by (induction vals) auto
  then show ?thesis by (simp add: tf_histogram_fixed_width_def)
qed

lemma normalised_entropy_single_bin:
  assumes "k < m" "0 < n" "tf_log ops (1001 / 1000) \<noteq> 0"
  shows "normalised_entropy ops (map (\<lambda>b. if b = k then n else 0) [0..<m]) = Some (- 1)"
proof -
  let ?counts = "map (\<lambda>b. if b = k then n else 0) [0..<m]"
  have total: "sum_list ?counts = n" using assms by (simp add: sum_list_single_index)
  have probs: "map (\<lambda>c. of_nat c / of_nat n) ?counts = map (\<lambda>b. if b = k then 1 else (0 :: rat)) [0..<m]"
    using assms by (auto simp: comp_def)
  have terms: "map (\<lambda>p. p * tf_log ops (p + 1 / 1000)) (map (\<lambda>b. if b = k then 1 else 0) [0..<m])
      = map (\<lambda>b. if b = k then tf_log ops (1001 / 1000) else 0) [0..<m]"
    by (auto simp: comp_def)
  have entropy: "sum_list (map (\<lambda>p. p * tf_log ops (p + 1 / 1000)) (map (\<lambda>c. of_nat c / of_nat n) ?counts))
      = tf_log ops (1001 / 1000)"
    unfolding probs terms using assms by (simp add: sum_list_single_index)
  have nz: "length (filter (\<lambda>c. c \<noteq> 0) ?counts) = 1"
    using count_nonzero_single_index [of k n m] assms by simp
  have "normalised_entropy ops ?counts = Some (- tf_log ops (1001 / 1000) / tf_log ops (1 / 1000 + 1))"
    unfolding normalised_entropy_def total using assms entropy nz by (simp add: Let_def)
  also have "- tf_log ops (1001 / 1000) / tf_log ops (1 / 1000 + 1) = - 1"
    using assms(3) by simp
  finally show ?thesis .
qed

lemma constant_sample_entropy:
  assumes "sample \<noteq> []" "\<forall>x\<in>set sample. x = v" "tf_log ops (1001 / 1000) \<noteq> 0"
  shows "get_sample_entropy_int ops sample = Some (- 1)"
proof -
  have h: "\<forall>x\<in>set (map cast_fval_int32 sample). x = cast_fval_int32 v" using assms by auto
  have "tf_histogram_fixed_width (map cast_fval_int32 sample)
      = map (\<lambda>b. if b = histogram_bin (cast_fval_int32 v) then length sample else 0) [0..<256]"
    using histogram_constant [OF h] by simp
  then show ?thesis
    using normalised_entropy_single_bin [OF histogram_bin_less, of "length sample" ops] assms(1,3)
    by (simp add: get_sample_entropy_int_def)
qed

text \<open>
  Claim C3, on the code. When the reference channels of a crop hold one constant value
  (and the logarithm of 1.001 is not 0), the normalised entropy that
  \<^verbatim>\<open>get_sample_entropy_int\<close> computes is -1, not 0: the histogram has a single bin that is
  not empty, the entropy is \<open>- log 1.001\<close> and it is divided by \<open>log 1.001\<close>. The
  entropy predicate rejects the crop for every threshold from -1 on, so for every
  threshold above 0.
\<close>

theorem constant_reference_is_rejected:
  assumes "tf_slice_channels (single_image_raw_depth self) (single_image_reference_depth self) crop
             = Inr ref_slice"
    and "tf_flatten ref_slice \<noteq> []"
    and "\<forall>x\<in>set (tf_flatten ref_slice). x = v"
    and "tf_log ops (1001 / 1000) \<noteq> 0"
  shows "get_sample_entropy_int ops (tf_flatten ref_slice) = Some (- 1)
       \<and> (- 1 \<le> classes_entropy_threshold self \<longrightarrow> balance_classes_entropy ops self crop = Inr False)"
proof -
  have e: "get_sample_entropy_int ops (tf_flatten ref_slice) = Some (- 1)"
    using assms(2,3,4) by (rule constant_sample_entropy)
  then show ?thesis
    by (simp add: balance_classes_entropy_def assms(1) tf_greater_def)
qed

theorem constant_reference_is_rejected_witness:
  "tf_slice_channels 1 1 [[[Fin 3, Fin 5], [Fin 4, Fin 5]]] = Inr [[[Fin 5], [Fin 5]]]
   \<and> get_sample_entropy_int example_ops [Fin 5, Fin 5] = Some (- 1)
   \<and> balance_classes_entropy example_ops example_object [[[Fin 3, Fin 5], [Fin 4, Fin 5]]] = Inr False"
proof -
  have d: "single_image_raw_depth example_object = 1" "single_image_reference_depth example_object = 1"
    by (simp_all add: example_object_def)
  have s: "tf_slice_channels (single_image_raw_depth example_object)
             (single_image_reference_depth example_object)
             [[[Fin 3, Fin 5], [Fin 4, Fin 5]]] = Inr [[[Fin 5], [Fin 5]]]"
    unfolding d by code_simp
  have f: "tf_flatten [[[Fin 5], [Fin 5]]] = [Fin 5, Fin 5]" by (simp add: tf_flatten_def)
  have t: "- 1 \<le> classes_entropy_threshold example_object" by code_simp
  have l: "tf_log example_ops (1001 / 1000) \<noteq> 0" by (simp add: example_ops_def)
  have "get_sample_entropy_int example_ops [Fin 5, Fin 5] = Some (- 1)
      \<and> balance_classes_entropy example_ops example_object [[[Fin 3, Fin 5], [Fin 4, Fin 5]]] = Inr False"
    using constant_reference_is_rejected [OF s _ _ l, of "Fin 5"] t by (simp add: f)
  moreover have "tf_slice_channels 1 1 [[[Fin 3, Fin 5], [Fin 4, Fin 5]]] = Inr [[[Fin 5], [Fin 5]]]"
    using s unfolding d .
  ultimately show ?thesis by simp
qed

section \<open>NaN values\<close>





lemma apply_transforms_shift:
  "apply_transforms (t # ts) (map Suc idx) img sd g = apply_transforms ts idx img sd g"
  by (induction idx arbitrary: img) (auto split: sum.splits)

lemma apply_transforms_Cons:
  "apply_transforms (t # ts) [0..<Suc n] img sd g =
     (case t img sd g of Inl e \<Rightarrow> Inl e | Inr img' \<Rightarrow> apply_transforms ts [0..<n] img' sd g)"
proof -
  have "[0..<Suc n] = 0 # map Suc [0..<n]"
    by (simp add: upt_conv_Cons map_Suc_upt del: upt_Suc)
  then show ?thesis by (simp add: apply_transforms_shift del: upt_Suc split: sum.splits)
qed











section \<open>The photometric transforms leave the reference channels\<close>

lemma is_tensor_dims:
  assumes "is_tensor h w c img" "0 < h" "0 < w"
  shows "image_height img = int h" "image_width img = int w" "image_depth img = int c"
proof -
  from assms obtain row rest where img: "img = row # rest"
    by (cases img) (auto simp: is_tensor_def)
  with assms obtain px others where row: "row = px # others"
    by (cases row) (auto simp: is_tensor_def)
  show "image_height img = int h" using assms by (simp add: is_tensor_def image_height_def)
  show "image_width img = int w" using assms img by (simp add: is_tensor_def image_width_def)
  show "image_depth img = int c" using assms img row by (simp add: is_tensor_def image_depth_def)
qed

lemma tf_slice_channels_tensor:
  assumes "is_tensor h w c img" "0 < h" "0 < w" "0 \<le> b" "0 \<le> s" "b + s \<le> int c"
  shows "tf_slice_channels b s img = Inr (map (map (\<lambda>px. take (nat s) (drop (nat b) px))) img)"
    and "is_tensor h w (nat s) (map (map (\<lambda>px. take (nat s) (drop (nat b) px))) img)"
proof -
  have "image_depth img = int c" using assms(1-3) by (rule is_tensor_dims)
  then show "tf_slice_channels b s img = Inr (map (map (\<lambda>px. take (nat s) (drop (nat b) px))) img)"
    using assms(4-6) by (simp add: tf_slice_channels_def)
  show "is_tensor h w (nat s) (map (map (\<lambda>px. take (nat s) (drop (nat b) px))) img)"
    using assms by (auto simp: is_tensor_def list_all_iff)
qed

lemma cast_image_tensor: "is_tensor h w c img \<Longrightarrow> is_tensor h w c (cast_image ops img)"
  by (auto simp: is_tensor_def list_all_iff cast_image_def)

lemma row_concat_right:
  "length ra = length rb \<Longrightarrow> \<forall>px\<in>set ra. length px = a \<Longrightarrow> \<forall>px\<in>set rb. length px = s \<Longrightarrow>
     map (\<lambda>px. take s (drop a px)) (map2 (@) ra rb) = rb"
  by (induction ra rb rule: list_induct2) auto

lemma row_concat_left:
  "length ra = length rb \<Longrightarrow> \<forall>px\<in>set ra. length px = a \<Longrightarrow>
     map (\<lambda>px. take a (drop 0 px)) (map2 (@) ra rb) = ra"
  by (induction ra rb rule: list_induct2) auto

lemma image_concat_right:
  "length A = length B \<Longrightarrow> \<forall>row\<in>set A. length row = w \<and> (\<forall>px\<in>set row. length px = a) \<Longrightarrow>
   \<forall>row\<in>set B. length row = w \<and> (\<forall>px\<in>set row. length px = s) \<Longrightarrow>
     map (map (\<lambda>px. take s (drop a px))) (map2 (map2 (@)) A B) = B"
proof (induction A B rule: list_induct2)
  case Nil
  then show ?case by simp
next
  case (Cons ra A rb B)
  then have "map (\<lambda>px. take s (drop a px)) (map2 (@) ra rb) = rb"
    using row_concat_right [of ra rb a s] by simp
  with Cons show ?case by simp
qed

lemma image_concat_left:
  "length A = length B \<Longrightarrow> \<forall>row\<in>set A. length row = w \<and> (\<forall>px\<in>set row. length px = a) \<Longrightarrow>
   \<forall>row\<in>set B. length row = w \<Longrightarrow>
     map (map (\<lambda>px. take a (drop 0 px))) (map2 (map2 (@)) A B) = A"
proof (induction A B rule: list_induct2)
  case Nil
  then show ?case by simp
next
  case (Cons ra A rb B)
  then have "map (\<lambda>px. take a (drop 0 px)) (map2 (@) ra rb) = ra"
    using row_concat_left [of ra rb a] by simp
  with Cons show ?case by simp
qed

lemma row_concat_lengths:
  "length ra = length rb \<Longrightarrow> \<forall>px\<in>set ra. length px = a \<Longrightarrow> \<forall>px\<in>set rb. length px = s \<Longrightarrow>
     \<forall>px\<in>set (map2 (@) ra rb). length px = a + s"
  by (induction ra rb rule: list_induct2) auto

lemma image_concat_tensor:
  "length A = length B \<Longrightarrow> \<forall>row\<in>set A. length row = w \<and> (\<forall>px\<in>set row. length px = a) \<Longrightarrow>
   \<forall>row\<in>set B. length row = w \<and> (\<forall>px\<in>set row. length px = s) \<Longrightarrow>
     \<forall>row\<in>set (map2 (map2 (@)) A B). length row = w \<and> (\<forall>px\<in>set row. length px = a + s)"
proof (induction A B rule: list_induct2)
  case Nil
  then show ?case by simp
next
  case (Cons ra A rb B)
  from Cons.prems(1) have hra: "length ra = w" "\<forall>px\<in>set ra. length px = a"
    and tA: "\<forall>row\<in>set A. length row = w \<and> (\<forall>px\<in>set row. length px = a)"
    by simp_all
  from Cons.prems(2) have hrb: "length rb = w" "\<forall>px\<in>set rb. length px = s"
    and tB: "\<forall>row\<in>set B. length row = w \<and> (\<forall>px\<in>set row. length px = s)"
    by simp_all
  have same: "length ra = length rb" using hra(1) hrb(1) by simp
  have len_row: "length (map2 (@) ra rb) = w" using hra(1) hrb(1) by simp
  have head: "\<forall>px\<in>set (map2 (@) ra rb). length px = a + s"
    using same hra(2) hrb(2) by (rule row_concat_lengths)
  have tail: "\<forall>row\<in>set (map2 (map2 (@)) A B). length row = w \<and> (\<forall>px\<in>set row. length px = a + s)"
    using tA tB by (rule Cons.IH)
  show ?case
  proof (rule ballI)
    fix row
    assume member: "row \<in> set (map2 (map2 (@)) (ra # A) (rb # B))"
    have unfold: "map2 (map2 (@)) (ra # A) (rb # B) = map2 (@) ra rb # map2 (map2 (@)) A B"
      by simp
    from member have "row \<in> set (map2 (@) ra rb # map2 (map2 (@)) A B)"
      unfolding unfold .
    then have "row = map2 (@) ra rb \<or> row \<in> set (map2 (map2 (@)) A B)"
      by (rule set_ConsD)
    then consider "row = map2 (@) ra rb" | "row \<in> set (map2 (map2 (@)) A B)"
      by blast
    then show "length row = w \<and> (\<forall>px\<in>set row. length px = a + s)"
    proof cases
      case 1
      show ?thesis unfolding 1 using len_row head by (rule conjI)
    next
      case 2
      with tail show ?thesis by (rule bspec)
    qed
  qed
qed

lemma is_tensor_iff_set:
  "is_tensor h w c img \<longleftrightarrow>
     length img = h \<and> (\<forall>row\<in>set img. length row = w \<and> (\<forall>px\<in>set row. length px = c))"
  by (simp add: is_tensor_def list_all_iff)

lemma tf_concat_channels_tensor:
  assumes "is_tensor h w a A" "is_tensor h w s B" "0 < h" "0 < w"
  shows "tf_concat_channels A B = Inr (map2 (map2 (@)) A B)"
    and "is_tensor h w (a + s) (map2 (map2 (@)) A B)"
    and "map (map (\<lambda>px. take s (drop a px))) (map2 (map2 (@)) A B) = B"
    and "map (map (\<lambda>px. take a (drop 0 px))) (map2 (map2 (@)) A B) = A"
proof -
  have len: "length A = length B" using assms by (simp add: is_tensor_def)
  have ra: "\<forall>row\<in>set A. length row = w \<and> (\<forall>px\<in>set row. length px = a)"
    using assms(1) unfolding is_tensor_iff_set by (rule conjunct2)
  have rb: "\<forall>row\<in>set B. length row = w \<and> (\<forall>px\<in>set row. length px = s)"
    using assms(2) unfolding is_tensor_iff_set by (rule conjunct2)
  have rb': "\<forall>row\<in>set B. length row = w"
    using rb by blast
  have l: "length (map2 (map2 (@)) A B) = h"
    using len assms(1) by (simp add: is_tensor_def)
  show "tf_concat_channels A B = Inr (map2 (map2 (@)) A B)"
    using is_tensor_dims [OF assms(1,3,4)] is_tensor_dims [OF assms(2,3,4)]
    by (simp add: tf_concat_channels_def)
  show "is_tensor h w (a + s) (map2 (map2 (@)) A B)"
    unfolding is_tensor_iff_set using l image_concat_tensor [OF len ra rb] by (rule conjI)
  show "map (map (\<lambda>px. take s (drop a px))) (map2 (map2 (@)) A B) = B"
    using len ra rb by (rule image_concat_right)
  show "map (map (\<lambda>px. take a (drop 0 px))) (map2 (map2 (@)) A B) = A"
    using len ra rb' by (rule image_concat_left)
qed

lemma apply_transforms_keep_shape:
  assumes "\<forall>t\<in>set ts. keeps_shape_transform t" "is_tensor h w c img"
  shows "\<exists>img'. apply_transforms ts [0..<length ts] img sd g = Inr img' \<and> is_tensor h w c img'"
  using assms
proof (induction ts arbitrary: img)
  case Nil
  then show ?case by simp
next
  case (Cons t ts)
  from Cons.prems(1) have kt: "keeps_shape_transform t"
    and rest: "\<forall>t\<in>set ts. keeps_shape_transform t"
    by simp_all
  from kt obtain mid where m: "t img sd g = Inr mid"
    and k: "\<forall>h w c. is_tensor h w c img \<longrightarrow> is_tensor h w c mid"
    unfolding keeps_shape_transform_def by blast
  from k Cons.prems(2) have "is_tensor h w c mid" by blast
  from Cons.IH [OF rest this] obtain img' where
    r: "apply_transforms ts [0..<length ts] mid sd g = Inr img'" and s: "is_tensor h w c img'"
    by blast
  have "apply_transforms (t # ts) [0..<Suc (length ts)] img sd g = Inr img'"
    unfolding apply_transforms_Cons m using r by simp
  then show ?case using s by (simp del: upt_Suc)
qed

lemma keeps_shape_transformI:
  assumes "\<And>sd. keeps_shape (F sd)"
  shows "keeps_shape_transform (\<lambda>img sd g. Inr (F sd img))"
  using assms unfolding keeps_shape_transform_def keeps_shape_def by blast

lemma photometric_transforms_keep_shape:
  assumes "shape_preserving ops"
  shows "keeps_shape_transform (img_standardize ops)"
    and "keeps_shape_transform (random_brightness ops max_delta)"
    and "keeps_shape_transform (random_saturation ops low high)"
    and "keeps_shape_transform (random_contrast ops low high)"
proof -
  have a: "img_standardize ops = (\<lambda>img sd g. Inr (per_image_standardization ops img))"
    by (intro ext) (simp add: img_standardize_def)
  have b: "random_brightness ops max_delta
      = (\<lambda>img sd g. Inr (stateless_random_brightness ops max_delta sd img))"
    by (intro ext) (simp add: random_brightness_def)
  have c: "random_saturation ops low high
      = (\<lambda>img sd g. Inr (stateless_random_saturation ops low high sd img))"
    by (intro ext) (simp add: random_saturation_def)
  have d: "random_contrast ops low high
      = (\<lambda>img sd g. Inr (stateless_random_contrast ops low high sd img))"
    by (intro ext) (simp add: random_contrast_def)
  from assms have s1: "keeps_shape (per_image_standardization ops)"
    and s2: "\<And>max_delta sd. keeps_shape (stateless_random_brightness ops max_delta sd)"
    and s3: "\<And>low high sd. keeps_shape (stateless_random_saturation ops low high sd)"
    and s4: "\<And>low high sd. keeps_shape (stateless_random_contrast ops low high sd)"
    unfolding shape_preserving_def by blast+
  show "keeps_shape_transform (img_standardize ops)"
    unfolding a by (rule keeps_shape_transformI) (rule s1)
  show "keeps_shape_transform (random_brightness ops max_delta)"
    unfolding b by (rule keeps_shape_transformI) (rule s2)
  show "keeps_shape_transform (random_saturation ops low high)"
    unfolding c by (rule keeps_shape_transformI) (rule s3)
  show "keeps_shape_transform (random_contrast ops low high)"
    unfolding d by (rule keeps_shape_transformI) (rule s4)
qed

lemma setup_pixels_transforms:
  assumes "shape_preserving ops" "\<not> no_reference self"
  shows "\<exists>photometric.
           image_pixels_transforms (setup_image_transforms ops self) = get_image_channels self # photometric
         \<and> nb_data_transforms (setup_image_transforms ops self) = Suc (length photometric)
         \<and> (\<forall>t\<in>set photometric. keeps_shape_transform t)"
proof -
  let ?photometric =
    "(if apply_whitening self then [img_standardize ops] else [])
     @ (case apply_random_brightness self of
          None \<Rightarrow> [] | Some max_delta \<Rightarrow> [random_brightness ops max_delta])
     @ (case apply_random_saturation self of
          None \<Rightarrow> [] | Some sat \<Rightarrow> [random_saturation ops (1 - sat) (1 + sat)])
     @ (case apply_random_contrast self of
          None \<Rightarrow> [] | Some con \<Rightarrow> [random_contrast ops (1 - con) (1 + con)])"
  have "image_pixels_transforms (setup_image_transforms ops self) = get_image_channels self # ?photometric"
    using assms(2) by (simp add: setup_image_transforms_def Let_def)
  moreover have "nb_data_transforms (setup_image_transforms ops self) = Suc (length ?photometric)"
    using assms(2) by (simp add: setup_image_transforms_def Let_def)
  moreover have "\<forall>t\<in>set ?photometric. keeps_shape_transform t"
    using photometric_transforms_keep_shape [OF assms(1)]
    by (auto split: option.splits)
  ultimately show ?thesis by blast
qed

lemma setup_image_transforms_fields:
  "single_image_raw_depth (setup_image_transforms ops self) = single_image_raw_depth self"
  "single_image_reference_depth (setup_image_transforms ops self) = single_image_reference_depth self"
  "no_reference (setup_image_transforms ops self) = no_reference self"
  "seed (setup_image_transforms ops self) = seed self"
  "post_process_fn (setup_image_transforms ops self)
     = (case crops_postprocess self of None \<Rightarrow> no_op | Some f \<Rightarrow> f)"
  by (simp_all add: setup_image_transforms_def Let_def)

text \<open>
  Claim C9. For a pipeline with a reference, whose library operations keep shapes, and a
  crop whose geometric transforms give a tensor with room for the raw and the reference
  channels: the photometric transforms run on the raw channels alone; the result of
  \<^verbatim>\<open>image_transform\<close> before post-processing holds, as its raw channels, the cast
  photometric result and, as its reference channels, the cast reference channels of the
  geometrically transformed crop; and the post-process function is applied to that
  concatenation (nothing more happens when the caller gave none).
\<close>

theorem photometric_transforms_keep_reference:
  assumes sp: "shape_preserving ops"
    and ref: "\<not> no_reference self"
    and geo: "global_transforms (setup_image_transforms ops self) input_image
                (make_seeds ops (seed self) call) g = Inr geo"
    and shape: "is_tensor h w c geo" and h: "0 < h" and w: "0 < w"
    and raw: "0 \<le> single_image_raw_depth self"
    and rf: "0 \<le> single_image_reference_depth self"
    and fit: "single_image_raw_depth self + single_image_reference_depth self \<le> int c"
  shows "\<exists>raw_slice reference pixels out.
      tf_slice_channels 0 (single_image_raw_depth self) geo = Inr raw_slice
    \<and> tf_slice_channels (single_image_raw_depth self) (single_image_reference_depth self) geo
        = Inr reference
    \<and> apply_transforms (tl (image_pixels_transforms (setup_image_transforms ops self)))
          [0..<nb_data_transforms (setup_image_transforms ops self) - 1] raw_slice
          (make_seeds ops (seed self) call) g = Inr pixels
    \<and> transform_before_post_process ops (setup_image_transforms ops self) input_image
          (make_seeds ops (seed self) call) g = Inr out
    \<and> tf_slice_channels 0 (single_image_raw_depth self) out = Inr (cast_image ops pixels)
    \<and> tf_slice_channels (single_image_raw_depth self) (single_image_reference_depth self) out
        = Inr (cast_image ops reference)
    \<and> image_transform ops (setup_image_transforms ops self) call g input_image
        = post_process_fn (setup_image_transforms ops self) out (make_seeds ops (seed self) call) g
    \<and> (crops_postprocess self = None
         \<longrightarrow> image_transform ops (setup_image_transforms ops self) call g input_image = Inr out)"
proof -
  let ?S = "setup_image_transforms ops self"
  let ?sd = "make_seeds ops (seed self) call"
  let ?r = "single_image_raw_depth self"
  let ?f = "single_image_reference_depth self"
  from setup_pixels_transforms [OF sp ref] obtain photometric where
    chain: "image_pixels_transforms ?S = get_image_channels self # photometric"
    and count: "nb_data_transforms ?S = Suc (length photometric)"
    and keep: "\<forall>t\<in>set photometric. keeps_shape_transform t"
    by blast
  define raw_slice where "raw_slice = map (map (\<lambda>px. take (nat ?r) (drop (nat 0) px))) geo"
  define reference where "reference = map (map (\<lambda>px. take (nat ?f) (drop (nat ?r) px))) geo"
  have raw_ok: "tf_slice_channels 0 ?r geo = Inr raw_slice"
    and raw_shape: "is_tensor h w (nat ?r) raw_slice"
    unfolding raw_slice_def using tf_slice_channels_tensor [OF shape h w, of 0 ?r] raw rf fit
    by simp_all
  have ref_ok: "tf_slice_channels ?r ?f geo = Inr reference"
    and ref_shape: "is_tensor h w (nat ?f) reference"
    unfolding reference_def using tf_slice_channels_tensor [OF shape h w raw rf fit]
    by simp_all
  from apply_transforms_keep_shape [OF keep raw_shape, of ?sd g] obtain pixels where
    run: "apply_transforms photometric [0..<length photometric] raw_slice ?sd g = Inr pixels"
    and pix_shape: "is_tensor h w (nat ?r) pixels"
    by blast
  have whole: "apply_transforms (image_pixels_transforms ?S) [0..<nb_data_transforms ?S] geo ?sd g
      = Inr pixels"
    unfolding chain count apply_transforms_Cons
    using raw_ok run by (simp add: get_image_channels_def)
  define out where "out = map2 (map2 (@)) (cast_image ops pixels) (cast_image ops reference)"
  have cp: "is_tensor h w (nat ?r) (cast_image ops pixels)"
    using pix_shape by (rule cast_image_tensor)
  have cr: "is_tensor h w (nat ?f) (cast_image ops reference)"
    using ref_shape by (rule cast_image_tensor)
  note cat = tf_concat_channels_tensor [OF cp cr h w]
  have concat_ok: "tf_concat_channels (cast_image ops pixels) (cast_image ops reference) = Inr out"
    unfolding out_def by (rule cat(1))
  have out_shape: "is_tensor h w (nat ?r + nat ?f) out"
    unfolding out_def by (rule cat(2))
  have before: "transform_before_post_process ops ?S input_image ?sd g = Inr out"
    unfolding transform_before_post_process_def setup_image_transforms_fields
    using geo ref ref_ok whole concat_ok by (simp add: Let_def)
  have back_ref: "tf_slice_channels ?r ?f out = Inr (cast_image ops reference)"
  proof -
    have "?r + ?f \<le> int (nat ?r + nat ?f)" using raw rf by simp
    from tf_slice_channels_tensor(1) [OF out_shape h w raw rf this]
    show ?thesis unfolding out_def using cat(3) by simp
  qed
  have back_raw: "tf_slice_channels 0 ?r out = Inr (cast_image ops pixels)"
  proof -
    have "0 + ?r \<le> int (nat ?r + nat ?f)" using raw rf by simp
    from tf_slice_channels_tensor(1) [OF out_shape h w _ raw this]
    show ?thesis unfolding out_def using cat(4) by simp
  qed
  have whole_tl: "apply_transforms (tl (image_pixels_transforms ?S)) [0..<nb_data_transforms ?S - 1]
      raw_slice ?sd g = Inr pixels"
    unfolding chain count using run by simp
  have it: "image_transform ops ?S call g input_image = post_process_fn ?S out ?sd g"
    unfolding image_transform_def setup_image_transforms_fields(4) using before by (simp add: Let_def)
  have last: "crops_postprocess self = None
      \<longrightarrow> image_transform ops ?S call g input_image = Inr out"
    using it by (simp add: setup_image_transforms_fields no_op_def)
  show ?thesis
    by (rule exI [of _ raw_slice], rule exI [of _ reference], rule exI [of _ pixels],
        rule exI [of _ out])
       (intro conjI raw_ok ref_ok whole_tl before back_raw back_ref it last)
qed

lemma example_ops_shape_preserving: "shape_preserving example_ops"
proof -
  have m: "is_tensor h w c (map (map (map f)) img)" if "is_tensor h w c img"
    for h w c img and f :: "fval \<Rightarrow> fval"
    using that by (simp add: is_tensor_iff_set)
  show ?thesis
    unfolding shape_preserving_def keeps_shape_def example_ops_def
    by (simp add: m)
qed

theorem photometric_transforms_keep_reference_witness:
  "shape_preserving example_ops
   \<and> global_transforms (setup_image_transforms example_ops example_object)
        [[[Fin 1, Fin 7], [Fin 2, Fin 8]]] (make_seeds example_ops (seed example_object) 0) 0
      = Inr [[[Fin 2, Fin 8], [Fin 1, Fin 7]]]
   \<and> image_transform example_ops (setup_image_transforms example_ops example_object) 0 0
        [[[Fin 1, Fin 7], [Fin 2, Fin 8]]]
      = Inr [[[Fin (15 / 4), Fin 8], [Fin (9 / 4), Fin 7]]]
   \<and> tf_slice_channels 1 1 [[[Fin (15 / 4), Fin 8], [Fin (9 / 4), Fin 7]]]
      = Inr (cast_image example_ops [[[Fin 8], [Fin 7]]])"
proof -
  let ?S = "setup_image_transforms example_ops example_object"
  let ?crop = "[[[Fin 1, Fin 7], [Fin 2, Fin 8]]]"
  let ?geo = "[[[Fin 2, Fin 8], [Fin 1, Fin 7]]]"
  have nr: "\<not> no_reference example_object" by code_simp
  have d: "single_image_raw_depth example_object = 1" "single_image_reference_depth example_object = 1"
    by (simp_all add: example_object_def)
  have pp: "crops_postprocess example_object = None" by code_simp
  have geo: "global_transforms ?S ?crop (make_seeds example_ops (seed example_object) 0) 0 = Inr ?geo"
    by code_simp
  have shape: "is_tensor 1 2 2 ?geo" by (simp add: is_tensor_def)
  have sl: "tf_slice_channels 1 1 ?geo = Inr [[[Fin 8], [Fin 7]]]" by code_simp
  have it: "image_transform example_ops ?S 0 0 ?crop
      = Inr [[[Fin (15 / 4), Fin 8], [Fin (9 / 4), Fin 7]]]"
    by code_simp
  from photometric_transforms_keep_reference
         [OF example_ops_shape_preserving nr geo shape, unfolded d]
  obtain reference out where
    "tf_slice_channels 1 1 ?geo = Inr reference"
    "tf_slice_channels 1 1 out = Inr (cast_image example_ops reference)"
    "image_transform example_ops ?S 0 0 ?crop = Inr out"
    using pp by auto
  then have "tf_slice_channels 1 1 [[[Fin (15 / 4), Fin 8], [Fin (9 / 4), Fin 7]]]
      = Inr (cast_image example_ops [[[Fin 8], [Fin 7]]])"
    using sl it by simp
  then show ?thesis using example_ops_shape_preserving geo it by simp
qed

section \<open>The constructor fails fast\<close>

lemma new_object_fields:
  "image_area_coverage_factor (new_object p) = image_area_coverage_factor p"
  "additionnal_filters_arg (new_object p) = additionnal_filters_arg p"
  "field_of_view (new_object p) = field_of_view p"
  "patch_ratio_vs_input (new_object p) = patch_ratio_vs_input p"
  "max_patches_per_image (new_object p) = max_patches_per_image p"
  "filelist_raw_data (new_object p) = filelist_raw_data p"
  "filelist_reference_data (new_object p) = filelist_reference_data p"
  "use_alternative_imread (new_object p) = use_alternative_imread p"
  by (simp_all add: new_object_def params.defs pipeline.defs)

lemma read_first_images_keeps:
  assumes "read_first_images fs self = Inr (raw0, self1)"
  shows "field_of_view self1 = field_of_view self"
    and "patch_ratio_vs_input self1 = patch_ratio_vs_input self"
    and "max_patches_per_image self1 = max_patches_per_image self"
    and "use_alternative_imread self1 = use_alternative_imread self"
    and "2 \<le> length raw0"
  using assms
  by (auto simp: read_first_images_def Let_def
      split: list.splits option.splits reference_source.splits if_splits)

lemma setup_geometry_keeps:
  assumes "setup_geometry raw0 self1 = Inr self2"
  shows "field_of_view self2 = field_of_view self1"
    and "fullframe_ref_shape self2 = fullframe_ref_shape self1"
    and "image_pairs_raw_ref_input self2 = image_pairs_raw_ref_input self1"
    and "use_alternative_imread self2 = use_alternative_imread self1"
  using assms by (auto simp: setup_geometry_def Let_def split: if_splits)

lemma init_bad_coverage:
  "image_area_coverage_factor p \<le> 0 \<Longrightarrow>
     init ops fs p = Inl (ValueError ''image_area_coverage_factor must be above 0'')"
  by (simp add: init_def Let_def new_object_fields)

lemma init_filters_not_a_list:
  "0 < image_area_coverage_factor p \<Longrightarrow> additionnal_filters_arg p = FiltersNotAList \<Longrightarrow>
     init ops fs p = Inl (ValueError ''additionnal_filters must be a list of functions'')"
  by (simp add: init_def Let_def new_object_fields)

lemma init_even_field_of_view:
  assumes "field_of_view p mod 2 = 0" "field_of_view p \<noteq> 0"
  shows "\<exists>e. init ops fs p = Inl e"
    and "0 < image_area_coverage_factor p \<Longrightarrow> additionnal_filters_arg p \<noteq> FiltersNotAList \<Longrightarrow>
         read_first_images fs (new_object p) = Inr (raw0, self1) \<Longrightarrow>
         setup_geometry raw0 self1 = Inr self2 \<Longrightarrow>
         init ops fs p = Inl (ValueError ''field_of_view must be odd or 0'')"
proof -
  have fov: "field_of_view s2 mod 2 = 0 \<and> field_of_view s2 \<noteq> 0"
    if "read_first_images fs (new_object p) = Inr (r0, s1)" "setup_geometry r0 s1 = Inr s2"
    for r0 s1 s2
    using read_first_images_keeps(1) [OF that(1)] setup_geometry_keeps(1) [OF that(2)] assms
    by (simp add: new_object_fields)
  show "\<exists>e. init ops fs p = Inl e"
    using fov by (auto simp: init_def Let_def split: sum.splits filters_argument.splits)
  show "init ops fs p = Inl (ValueError ''field_of_view must be odd or 0'')"
    if "0 < image_area_coverage_factor p" "additionnal_filters_arg p \<noteq> FiltersNotAList"
       "read_first_images fs (new_object p) = Inr (raw0, self1)" "setup_geometry raw0 self1 = Inr self2"
    using that fov [OF that(3,4)]
    by (auto simp: init_def Let_def new_object_fields split: filters_argument.splits)
qed

lemma init_sizes_differ:
  assumes "0 < image_area_coverage_factor p" "additionnal_filters_arg p \<noteq> FiltersNotAList"
    and "filelist_raw_data p = raw_file # raws"
    and "filelist_reference_data p = RefList (ref_file # refs)"
    and "imread_shape fs raw_file = Some raw0" "cv2_imread_shape fs ref_file = Some ref0"
    and "2 \<le> length raw0" "2 \<le> length ref0"
    and "raw0 ! 0 \<noteq> ref0 ! 0 \<or> raw0 ! 1 \<noteq> ref0 ! 1"
  shows "init ops fs p = Inl (ValueError ''first input files do not have the same pixel size'')"
proof -
  have "read_first_images fs (new_object p)
      = Inl (ValueError ''first input files do not have the same pixel size'')"
    using assms(3-9) by (auto simp: read_first_images_def new_object_fields)
  then show ?thesis
    using assms(1,2) by (auto simp: init_def Let_def new_object_fields split: filters_argument.splits)
qed

text \<open>
  Claim C8. The constructor returns an exception, and so builds no pipeline, in each of
  these cases: a coverage factor that is not positive (ValueError, the first check); an
  \<^verbatim>\<open>additionnal_filters\<close> argument that is not a list (ValueError, the second check); an
  even \<^verbatim>\<open>field_of_view\<close> other than 0 (the ValueError of that check whenever the first
  images were read and the geometry derived; otherwise the exception those steps raise);
  first raw and reference images of different height or width (ValueError of the
  comparison, once the first two checks are passed).
\<close>

theorem init_fails_fast:
  "(image_area_coverage_factor p \<le> 0
      \<longrightarrow> init ops fs p = Inl (ValueError ''image_area_coverage_factor must be above 0''))
   \<and> (0 < image_area_coverage_factor p \<and> additionnal_filters_arg p = FiltersNotAList
      \<longrightarrow> init ops fs p = Inl (ValueError ''additionnal_filters must be a list of functions''))
   \<and> (field_of_view p mod 2 = 0 \<and> field_of_view p \<noteq> 0
      \<longrightarrow> (\<exists>e. init ops fs p = Inl e)
          \<and> (\<forall>raw0 self1 self2.
                0 < image_area_coverage_factor p \<and> additionnal_filters_arg p \<noteq> FiltersNotAList
                \<and> read_first_images fs (new_object p) = Inr (raw0, self1)
                \<and> setup_geometry raw0 self1 = Inr self2
                \<longrightarrow> init ops fs p = Inl (ValueError ''field_of_view must be odd or 0'')))
   \<and> (\<forall>raw_file raws ref_file refs raw0 ref0.
         filelist_raw_data p = raw_file # raws
         \<and> filelist_reference_data p = RefList (ref_file # refs)
         \<and> imread_shape fs raw_file = Some raw0 \<and> cv2_imread_shape fs ref_file = Some ref0
         \<and> 2 \<le> length raw0 \<and> 2 \<le> length ref0
         \<and> (raw0 ! 0 \<noteq> ref0 ! 0 \<or> raw0 ! 1 \<noteq> ref0 ! 1)
      \<longrightarrow> (\<exists>e. init ops fs p = Inl e)
          \<and> (0 < image_area_coverage_factor p \<and> additionnal_filters_arg p \<noteq> FiltersNotAList
               \<longrightarrow> init ops fs p
                    = Inl (ValueError ''first input files do not have the same pixel size'')))"
proof (intro conjI impI allI)
  assume "image_area_coverage_factor p \<le> 0"
  then show "init ops fs p = Inl (ValueError ''image_area_coverage_factor must be above 0'')"
    by (rule init_bad_coverage)
next
  assume "0 < image_area_coverage_factor p \<and> additionnal_filters_arg p = FiltersNotAList"
  then show "init ops fs p = Inl (ValueError ''additionnal_filters must be a list of functions'')"
    using init_filters_not_a_list by blast
next
  assume "field_of_view p mod 2 = 0 \<and> field_of_view p \<noteq> 0"
  then have "field_of_view p mod 2 = 0" "field_of_view p \<noteq> 0" by simp_all
  then show "\<exists>e. init ops fs p = Inl e"
    by (rule init_even_field_of_view(1))
next
  fix raw0 self1 self2
  assume "field_of_view p mod 2 = 0 \<and> field_of_view p \<noteq> 0"
    and "0 < image_area_coverage_factor p \<and> additionnal_filters_arg p \<noteq> FiltersNotAList
                \<and> read_first_images fs (new_object p) = Inr (raw0, self1)
                \<and> setup_geometry raw0 self1 = Inr self2"
  then have "field_of_view p mod 2 = 0" "field_of_view p \<noteq> 0"
    "0 < image_area_coverage_factor p" "additionnal_filters_arg p \<noteq> FiltersNotAList"
    "read_first_images fs (new_object p) = Inr (raw0, self1)" "setup_geometry raw0 self1 = Inr self2"
    by simp_all
  then show "init ops fs p = Inl (ValueError ''field_of_view must be odd or 0'')"
    by (rule init_even_field_of_view(2))
next
  fix raw_file raws ref_file refs raw0 ref0
  assume a: "filelist_raw_data p = raw_file # raws
         \<and> filelist_reference_data p = RefList (ref_file # refs)
         \<and> imread_shape fs raw_file = Some raw0 \<and> cv2_imread_shape fs ref_file = Some ref0
         \<and> 2 \<le> length raw0 \<and> 2 \<le> length ref0
         \<and> (raw0 ! 0 \<noteq> ref0 ! 0 \<or> raw0 ! 1 \<noteq> ref0 ! 1)"
  show "\<exists>e. init ops fs p = Inl e"
  proof (cases "0 < image_area_coverage_factor p \<and> additionnal_filters_arg p \<noteq> FiltersNotAList")
    case True
    then have "init ops fs p = Inl (ValueError ''first input files do not have the same pixel size'')"
      using a init_sizes_differ [of p raw_file raws ref_file refs fs raw0 ref0 ops] by simp
    then show ?thesis by simp
  next
    case False
    then consider "image_area_coverage_factor p \<le> 0"
      | "0 < image_area_coverage_factor p" "additionnal_filters_arg p = FiltersNotAList"
      by fastforce
    then show ?thesis
    proof cases
      case 1
      then show ?thesis using init_bad_coverage [of p ops fs] by simp
    next
      case 2
      then show ?thesis using init_filters_not_a_list [of p ops fs] by simp
    qed
  qed
  assume "0 < image_area_coverage_factor p \<and> additionnal_filters_arg p \<noteq> FiltersNotAList"
  then show "init ops fs p = Inl (ValueError ''first input files do not have the same pixel size'')"
    using a init_sizes_differ [of p raw_file raws ref_file refs fs raw0 ref0 ops] by simp
qed

theorem init_fails_fast_witness:
  "init example_ops example_files (example_params\<lparr>image_area_coverage_factor := 0\<rparr>)
     = Inl (ValueError ''image_area_coverage_factor must be above 0'')
   \<and> init example_ops example_files (example_params\<lparr>additionnal_filters_arg := FiltersNotAList\<rparr>)
     = Inl (ValueError ''additionnal_filters must be a list of functions'')
   \<and> init example_ops example_files (example_params\<lparr>field_of_view := 4\<rparr>)
     = Inl (ValueError ''field_of_view must be odd or 0'')
   \<and> init example_ops (example_files\<lparr>cv2_imread_shape := (\<lambda>path. Some [4, 3])\<rparr>)
        (example_params\<lparr>filelist_reference_data := RefList [''ref0'']\<rparr>)
     = Inl (ValueError ''first input files do not have the same pixel size'')"
proof -
  let ?p1 = "example_params\<lparr>image_area_coverage_factor := 0\<rparr>"
  let ?p2 = "example_params\<lparr>additionnal_filters_arg := FiltersNotAList\<rparr>"
  let ?p3 = "example_params\<lparr>field_of_view := 4\<rparr>"
  let ?p4 = "example_params\<lparr>filelist_reference_data := RefList [''ref0'']\<rparr>"
  let ?fs4 = "example_files\<lparr>cv2_imread_shape := (\<lambda>path. Some [4, 3])\<rparr>"
  have c: "0 < image_area_coverage_factor example_params" by (simp add: example_params_def)
  have l: "additionnal_filters_arg example_params = FiltersNone" by (simp add: example_params_def)
  have w1: "init example_ops example_files ?p1
      = Inl (ValueError ''image_area_coverage_factor must be above 0'')"
    using init_fails_fast [of ?p1 example_ops example_files] by simp
  have w2: "init example_ops example_files ?p2
      = Inl (ValueError ''additionnal_filters must be a list of functions'')"
    using init_fails_fast [of ?p2 example_ops example_files] c by simp
  have "case read_first_images example_files (new_object ?p3) of
          Inl e \<Rightarrow> False
        | Inr (raw0, self1) \<Rightarrow> (case setup_geometry raw0 self1 of Inl e \<Rightarrow> False | Inr self2 \<Rightarrow> True)"
    by code_simp
  then obtain raw0 self1 where
    r: "read_first_images example_files (new_object ?p3) = Inr (raw0, self1)"
    and "case setup_geometry raw0 self1 of Inl e \<Rightarrow> False | Inr self2 \<Rightarrow> True"
    by (cases "read_first_images example_files (new_object ?p3)") auto
  then obtain self2 where g: "setup_geometry raw0 self1 = Inr self2"
    by (cases "setup_geometry raw0 self1") auto
  have w3: "init example_ops example_files ?p3 = Inl (ValueError ''field_of_view must be odd or 0'')"
    using init_fails_fast [of ?p3 example_ops example_files] c l r g by simp
  have f4: "filelist_raw_data ?p4 = ''img0'' # []" "filelist_reference_data ?p4 = RefList (''ref0'' # [])"
    "imread_shape ?fs4 ''img0'' = Some [3, 3, 2]" "cv2_imread_shape ?fs4 ''ref0'' = Some [4, 3]"
    by (simp_all add: example_params_def example_files_def)
  have w4: "init example_ops ?fs4 ?p4
      = Inl (ValueError ''first input files do not have the same pixel size'')"
    using init_fails_fast [of ?p4 example_ops ?fs4] c l f4 by simp
  show ?thesis using w1 w2 w3 w4 by simp
qed

section \<open>Full-frame mode\<close>

lemma setup_geometry_full_frame:
  assumes "patch_ratio_vs_input self1 = 1 \<or> patch_ratio_vs_input self1 < 0"
    and "setup_geometry raw0 self1 = Inr self2"
  shows "max_patches_per_image self2 = 1" "patch_ratio_vs_input self2 = 1" "full_frame_mode self2"
  using assms by (auto simp: setup_geometry_def Let_def split: if_splits)

lemma setup_load_keeps:
  assumes "setup_load_raw_images_from_filenames fs self3 = Inr self4"
  shows "full_frame_mode self4 = full_frame_mode self3"
  using assms by (auto simp: setup_load_raw_images_from_filenames_def Let_def split: if_splits)

lemma setups_keep_full_frame:
  "full_frame_mode (setup_crop_filters ops (setup_image_transforms ops self)) = full_frame_mode self"
  by (simp add: setup_crop_filters_def setup_image_transforms_def Let_def)

lemma create_data_pipeline_full_frame:
  "full_frame_mode self \<Longrightarrow>
     create_data_pipeline self = Inl (AttributeError ''_load_raw_images_from_filenames'')"
  by (simp add: create_data_pipeline_def)

lemma init_full_frame:
  assumes "patch_ratio_vs_input p = 1 \<or> patch_ratio_vs_input p < 0"
  shows "\<exists>e. init ops fs p = Inl e"
proof (cases "init ops fs p")
  case (Inl e)
  then show ?thesis by simp
next
  case (Inr built)
  then obtain raw0 self1 self2 self4 where
    r: "read_first_images fs (new_object p) = Inr (raw0, self1)"
    and g: "setup_geometry raw0 self1 = Inr self2"
    and l: "setup_load_raw_images_from_filenames fs
              (self2\<lparr>cropSize :=
                 (if full_frame_mode self2 then the (fullframe_ref_shape self2)
                  else [patchSize self2, patchSize self2,
                        single_image_raw_depth self2 + single_image_reference_depth self2])\<rparr>) = Inr self4"
    and c: "create_data_pipeline (setup_crop_filters ops (setup_image_transforms ops self4)) = Inr built"
    by (auto simp: init_def Let_def split: if_splits sum.splits)
  have "patch_ratio_vs_input self1 = 1 \<or> patch_ratio_vs_input self1 < 0"
    using read_first_images_keeps(2) [OF r] assms by (simp add: new_object_fields)
  then have "full_frame_mode self2" using g by (rule setup_geometry_full_frame(3))
  then have "full_frame_mode self4" using setup_load_keeps [OF l] by simp
  then have "create_data_pipeline (setup_crop_filters ops (setup_image_transforms ops self4))
      = Inl (AttributeError ''_load_raw_images_from_filenames'')"
    by (intro create_data_pipeline_full_frame) (simp add: setups_keep_full_frame)
  with c show ?thesis by simp
qed

lemma init_full_frame_attribute_error:
  assumes "0 < image_area_coverage_factor p" "additionnal_filters_arg p \<noteq> FiltersNotAList"
    and "\<not> (field_of_view p mod 2 = 0 \<and> field_of_view p \<noteq> 0)"
    and r: "read_first_images fs (new_object p) = Inr (raw0, self1)"
    and g: "setup_geometry raw0 self1 = Inr self2"
    and full: "full_frame_mode self2"
    and shape: "fullframe_ref_shape self1 \<noteq> None"
    and l: "setup_load_raw_images_from_filenames fs
              (self2\<lparr>cropSize := the (fullframe_ref_shape self2)\<rparr>) = Inr self4"
  shows "init ops fs p = Inl (AttributeError ''_load_raw_images_from_filenames'')"
proof -
  have fov: "\<not> (field_of_view self2 mod 2 = 0 \<and> field_of_view self2 \<noteq> 0)"
    using read_first_images_keeps(1) [OF r] setup_geometry_keeps(1) [OF g] assms(3)
    by (simp add: new_object_fields)
  have sh: "fullframe_ref_shape self2 \<noteq> None"
    using setup_geometry_keeps(2) [OF g] shape by simp
  have "full_frame_mode self4" using setup_load_keeps [OF l] full by simp
  then have c: "create_data_pipeline (setup_crop_filters ops (setup_image_transforms ops self4))
      = Inl (AttributeError ''_load_raw_images_from_filenames'')"
    by (intro create_data_pipeline_full_frame) (simp add: setups_keep_full_frame)
  show ?thesis
    using assms(1,2) fov sh full r g l c
    by (auto simp: init_def Let_def new_object_fields split: filters_argument.splits)
qed

text \<open>
  Claim C6, on the code. With a patch ratio of 1 or below 0, the constructor sets the
  maximal number of patches to 1 and selects full-frame mode, as claimed; but it never
  returns a pipeline: once all checks are passed, \<^verbatim>\<open>_create_data_pipeline\<close> reads
  \<^verbatim>\<open>self._load_raw_images_from_filenames\<close>, which no code of the class defines, and
  raises AttributeError. No descriptor yields a crop.
\<close>

theorem full_frame_mode_raises:
  assumes "patch_ratio_vs_input p = 1 \<or> patch_ratio_vs_input p < 0"
  shows "(\<exists>e. init ops fs p = Inl e)
       \<and> (\<forall>raw0 self1 self2.
             read_first_images fs (new_object p) = Inr (raw0, self1)
             \<and> setup_geometry raw0 self1 = Inr self2
           \<longrightarrow> max_patches_per_image self2 = 1 \<and> full_frame_mode self2
               \<and> (\<forall>self4.
                     0 < image_area_coverage_factor p
                     \<and> additionnal_filters_arg p \<noteq> FiltersNotAList
                     \<and> \<not> (field_of_view p mod 2 = 0 \<and> field_of_view p \<noteq> 0)
                     \<and> fullframe_ref_shape self1 \<noteq> None
                     \<and> setup_load_raw_images_from_filenames fs
                          (self2\<lparr>cropSize := the (fullframe_ref_shape self2)\<rparr>) = Inr self4
                   \<longrightarrow> init ops fs p = Inl (AttributeError ''_load_raw_images_from_filenames'')))"
proof (intro conjI allI impI)
  show "\<exists>e. init ops fs p = Inl e" using assms by (rule init_full_frame)
next
  fix raw0 self1 self2
  assume a: "read_first_images fs (new_object p) = Inr (raw0, self1)
             \<and> setup_geometry raw0 self1 = Inr self2"
  then have ratio: "patch_ratio_vs_input self1 = 1 \<or> patch_ratio_vs_input self1 < 0"
    using read_first_images_keeps(2) [of fs "new_object p" raw0 self1] assms
    by (simp add: new_object_fields)
  from a have g: "setup_geometry raw0 self1 = Inr self2" by simp
  show "max_patches_per_image self2 = 1" using ratio g by (rule setup_geometry_full_frame(1))
  show full: "full_frame_mode self2" using ratio g by (rule setup_geometry_full_frame(3))
  fix self4
  assume b: "0 < image_area_coverage_factor p
             \<and> additionnal_filters_arg p \<noteq> FiltersNotAList
             \<and> \<not> (field_of_view p mod 2 = 0 \<and> field_of_view p \<noteq> 0)
             \<and> fullframe_ref_shape self1 \<noteq> None
             \<and> setup_load_raw_images_from_filenames fs
                  (self2\<lparr>cropSize := the (fullframe_ref_shape self2)\<rparr>) = Inr self4"
  show "init ops fs p = Inl (AttributeError ''_load_raw_images_from_filenames'')"
    using init_full_frame_attribute_error [of p fs raw0 self1 self2 self4 ops] a b full by simp
qed

theorem full_frame_mode_raises_witness:
  "init example_ops example_files (example_params\<lparr>patch_ratio_vs_input := 1\<rparr>)
     = Inl (AttributeError ''_load_raw_images_from_filenames'')
   \<and> init example_ops example_files (example_params\<lparr>patch_ratio_vs_input := - 1\<rparr>)
     = Inl (AttributeError ''_load_raw_images_from_filenames'')"
proof -
  have w: "init example_ops example_files (example_params\<lparr>patch_ratio_vs_input := q\<rparr>)
      = Inl (AttributeError ''_load_raw_images_from_filenames'')"
    if q: "q = 1 \<or> q < 0"
      and ev: "case read_first_images example_files (new_object (example_params\<lparr>patch_ratio_vs_input := q\<rparr>)) of
            Inl e \<Rightarrow> False
          | Inr (raw0, self1) \<Rightarrow>
              fullframe_ref_shape self1 \<noteq> None
              \<and> (case setup_geometry raw0 self1 of
                   Inl e \<Rightarrow> False
                 | Inr self2 \<Rightarrow>
                     (case setup_load_raw_images_from_filenames example_files
                             (self2\<lparr>cropSize := the (fullframe_ref_shape self2)\<rparr>) of
                        Inl e \<Rightarrow> False | Inr self4 \<Rightarrow> True))"
    for q
  proof -
    let ?p = "example_params\<lparr>patch_ratio_vs_input := q\<rparr>"
    from ev obtain raw0 self1 where
      r: "read_first_images example_files (new_object ?p) = Inr (raw0, self1)"
      and s: "fullframe_ref_shape self1 \<noteq> None"
      and rest: "case setup_geometry raw0 self1 of
                   Inl e \<Rightarrow> False
                 | Inr self2 \<Rightarrow>
                     (case setup_load_raw_images_from_filenames example_files
                             (self2\<lparr>cropSize := the (fullframe_ref_shape self2)\<rparr>) of
                        Inl e \<Rightarrow> False | Inr self4 \<Rightarrow> True)"
      by (cases "read_first_images example_files (new_object ?p)") auto
    from rest obtain self2 where g: "setup_geometry raw0 self1 = Inr self2"
      and rest2: "case setup_load_raw_images_from_filenames example_files
                             (self2\<lparr>cropSize := the (fullframe_ref_shape self2)\<rparr>) of
                        Inl e \<Rightarrow> False | Inr self4 \<Rightarrow> True"
      by (cases "setup_geometry raw0 self1") auto
    from rest2 obtain self4 where l: "setup_load_raw_images_from_filenames example_files
                             (self2\<lparr>cropSize := the (fullframe_ref_shape self2)\<rparr>) = Inr self4"
      by (cases "setup_load_raw_images_from_filenames example_files
                             (self2\<lparr>cropSize := the (fullframe_ref_shape self2)\<rparr>)") auto
    have c: "0 < image_area_coverage_factor ?p" "additionnal_filters_arg ?p \<noteq> FiltersNotAList"
      "\<not> (field_of_view ?p mod 2 = 0 \<and> field_of_view ?p \<noteq> 0)"
      by (simp_all add: example_params_def)
    have "patch_ratio_vs_input ?p = 1 \<or> patch_ratio_vs_input ?p < 0" using q by simp
    from full_frame_mode_raises [OF this, of example_ops example_files] r g s l c
    show ?thesis by blast
  qed
  have "init example_ops example_files (example_params\<lparr>patch_ratio_vs_input := 1\<rparr>)
     = Inl (AttributeError ''_load_raw_images_from_filenames'')"
    by (rule w) (simp, code_simp)
  moreover have "init example_ops example_files (example_params\<lparr>patch_ratio_vs_input := - 1\<rparr>)
     = Inl (AttributeError ''_load_raw_images_from_filenames'')"
    by (rule w) (simp, code_simp)
  ultimately show ?thesis by simp
qed

section \<open>Two runs with random rotation\<close>

text \<open>
  Without shuffling, without the random rotation and without a post-process function of
  the caller, nothing in the pipeline reads an unseeded generator: the batches are the
  same in every run.
\<close>

lemma apply_transforms_ignore_draw:
  assumes "\<forall>t\<in>set ts. \<forall>img sd g g'. t img sd g = t img sd g'"
  shows "apply_transforms ts idx img sd g = apply_transforms ts idx img sd g'"
proof (induction idx arbitrary: img)
  case Nil
  then show ?case by simp
next
  case (Cons i rest)
  show ?case
  proof (cases "i < length ts")
    case True
    then have "ts ! i \<in> set ts" by simp
    with assms have "(ts ! i) img sd g = (ts ! i) img sd g'" by blast
    then show ?thesis using True Cons.IH by (simp split: sum.splits)
  next
    case False
    then show ?thesis by simp
  qed
qed

lemma label_transforms_ignore_draw:
  assumes "\<not> apply_random_rot90 self"
  shows "\<forall>t\<in>set (image_label_transforms (setup_image_transforms ops self)).
           \<forall>img sd g g'. t img sd g = t img sd g'"
  using assms
  by (auto simp: setup_image_transforms_def Let_def replace_nans_by_zeros_def
      stateless_random_flip_left_right_def stateless_random_flip_up_down_def)

lemma pixels_transforms_ignore_draw:
  "\<forall>t\<in>set (image_pixels_transforms (setup_image_transforms ops self)).
     \<forall>img sd g g'. t img sd g = t img sd g'"
  by (auto simp: setup_image_transforms_def Let_def get_image_channels_def img_standardize_def
      random_brightness_def random_saturation_def random_contrast_def split: option.splits)

lemma image_transform_ignores_draw:
  assumes "\<not> apply_random_rot90 self" "crops_postprocess self = None"
  shows "image_transform ops (setup_crop_filters ops (setup_image_transforms ops self)) call g crop
       = image_transform ops (setup_crop_filters ops (setup_image_transforms ops self)) call g' crop"
proof -
  let ?T = "setup_image_transforms ops self"
  let ?S = "setup_crop_filters ops ?T"
  have f: "image_label_transforms ?S = image_label_transforms ?T"
    "image_pixels_transforms ?S = image_pixels_transforms ?T"
    "post_process_fn ?S = no_op"
    using assms(2) by (simp_all add: setup_crop_filters_def setup_image_transforms_def Let_def)
  have a: "apply_transforms (image_label_transforms ?S) idx img sd g
      = apply_transforms (image_label_transforms ?S) idx img sd g'" for idx img sd
    unfolding f using label_transforms_ignore_draw [OF assms(1)]
    by (rule apply_transforms_ignore_draw)
  have b: "apply_transforms (image_pixels_transforms ?S) idx img sd g
      = apply_transforms (image_pixels_transforms ?S) idx img sd g'" for idx img sd
    unfolding f using pixels_transforms_ignore_draw
    by (rule apply_transforms_ignore_draw)
  have "transform_before_post_process ops ?S crop sd g
      = transform_before_post_process ops ?S crop sd g'" for sd
    unfolding transform_before_post_process_def global_transforms_def a b ..
  then show ?thesis
    unfolding image_transform_def f no_op_def by simp
qed

lemma crops_stream_ignores_run:
  assumes "\<not> shuffle_samples self"
  shows "crops_stream ops r1 self = crops_stream ops r2 self"
proof -
  have n: "create_dataset_filenames r1 self = create_dataset_filenames r2 self"
    using assms by (simp add: create_dataset_filenames_def Let_def)
  have b: "prepare_crops_bbox ops self rnd h w = prepare_crops_bbox ops self rnd' h w" for rnd rnd' h w
    using assms by (simp add: prepare_crops_bbox_def)
  have c: "crops_dataset ops self rnd name = crops_dataset ops self rnd' name" for rnd rnd' name
    unfolding crops_dataset_def b [of rnd _ _ rnd'] ..
  have "(\<lambda>(k, image_filename). crops_dataset ops self (crop_draws r1 k) image_filename)
      = (\<lambda>(k, image_filename). crops_dataset ops self (crop_draws r2 k) image_filename)"
    using c by (intro ext) (simp add: split_def)
  then show ?thesis unfolding crops_stream_def n by simp
qed

lemma dataset_map_cong_all:
  "(\<And>x. f x = h x) \<Longrightarrow> dataset_map f xs = dataset_map h xs"
  by (induction xs) (simp_all split: sum.splits)

lemma batches_without_rotation_ignore_run:
  assumes "\<not> shuffle_samples self" "\<not> apply_random_rot90 self" "crops_postprocess self = None"
  shows "pipeline_batches ops r1 (setup_crop_filters ops (setup_image_transforms ops self))
       = pipeline_batches ops r2 (setup_crop_filters ops (setup_image_transforms ops self))"
proof -
  let ?S = "setup_crop_filters ops (setup_image_transforms ops self)"
  have "\<not> shuffle_samples ?S"
    using assms(1) by (simp add: setup_crop_filters_def setup_image_transforms_def Let_def)
  then have s: "crops_stream ops r1 ?S = crops_stream ops r2 ?S"
    by (rule crops_stream_ignores_run)
  have m: "dataset_map (\<lambda>(call, crop). image_transform ops ?S call (uniform_draw r1 call) crop) xs
      = dataset_map (\<lambda>(call, crop). image_transform ops ?S call (uniform_draw r2 call) crop) xs" for xs
    by (rule dataset_map_cong_all)
       (simp add: split_def image_transform_ignores_draw [OF assms(2,3), of ops _ "uniform_draw r1 _" _ "uniform_draw r2 _"])
  show ?thesis unfolding pipeline_batches_def s m ..
qed

text \<open>
  Claim C2, on the code. The pipeline built from \<open>rot90_params\<close> (no shuffling, one
  epoch, master seed 42, random rotation on) produces different batches in two runs
  that differ only in what the unseeded process-wide generator draws: the single crop
  comes out as it is in the first run and rotated by a quarter turn in the second.
\<close>

theorem rot90_runs_differ:
  "(case init example_ops rot90_files rot90_params of
      Inl e \<Rightarrow> None
    | Inr self \<Rightarrow> pipeline_batches example_ops (example_run\<lparr>uniform_draw := (\<lambda>call. 0)\<rparr>) self)
     = Some (Inr [[[[[Fin 1], [Fin 2]], [[Fin 4], [Fin 5]]]]])
   \<and> (case init example_ops rot90_files rot90_params of
      Inl e \<Rightarrow> None
    | Inr self \<Rightarrow> pipeline_batches example_ops (example_run\<lparr>uniform_draw := (\<lambda>call. 1)\<rparr>) self)
     = Some (Inr [[[[[Fin 2], [Fin 5]], [[Fin 1], [Fin 4]]]]])"
proof -
  have a: "(case init example_ops rot90_files rot90_params of
      Inl e \<Rightarrow> None
    | Inr self \<Rightarrow> pipeline_batches example_ops (example_run\<lparr>uniform_draw := (\<lambda>call. 0)\<rparr>) self)
     = Some (Inr [[[[[Fin 1], [Fin 2]], [[Fin 4], [Fin 5]]]]])"
    by code_simp
  have b: "(case init example_ops rot90_files rot90_params of
      Inl e \<Rightarrow> None
    | Inr self \<Rightarrow> pipeline_batches example_ops (example_run\<lparr>uniform_draw := (\<lambda>call. 1)\<rparr>) self)
     = Some (Inr [[[[[Fin 2], [Fin 5]], [[Fin 1], [Fin 4]]]]])"
    by code_simp
  from a b show ?thesis by (rule conjI)
qed

end
